theory Spec2Isabelle
  imports
    Complex_Main
    "HOL-Library.AList"
    "HOL-Library.Char_ord"
    "HOL-Library.List_Lexorder"
    "HOL-Library.Log_Nat"
    "HOL-Library.Multiset"
    "HOL-Library.Product_Lexorder"
begin

section \<open>Python values used by the scanners\<close>

text \<open>
  The scanners exchange dictionaries. A dictionary whose keys are fixed by the code is a
  record whose fields are options: \<open>None\<close> is an absent key, and \<open>d.get(k, default)\<close>
  is \<open>getd (k d) default\<close>. Python integers are \<open>int\<close>. A Python float is the rational
  number it denotes (\<open>rat\<close>), and \<open>int(x)\<close> truncates toward zero.
\<close>

datatype py_exception =
    NetworkTimeoutError string
  | ScanningNotPossibleError string
  | InvalidTargetError string
  | KeyError string
  | OtherException string

definition getd :: "'a option \<Rightarrow> 'a \<Rightarrow> 'a" where
  "getd v d = (case v of None \<Rightarrow> d | Some x \<Rightarrow> x)"

definition py_int :: "rat \<Rightarrow> int" where
  "py_int x = (if 0 \<le> x then \<lfloor>x\<rfloor> else \<lceil>x\<rceil>)"

text \<open>
  IEEE 754 double precision. \<open>round_double x\<close> is the double nearest to \<open>x\<close>: 53
  significant bits, ties to the even significand. The exponent range is not bounded, so
  overflow to infinity and subnormal numbers are not represented; the numbers of the
  scoring engine stay far from both. A Python number is an \<open>int\<close> or a \<open>float\<close>; an
  operation on two ints is exact, any other converts both operands to doubles and
  rounds the result. A float literal denotes the double nearest to its decimal value.
\<close>

definition round_half_even :: "rat \<Rightarrow> int" where
  "round_half_even q =
     (let f = \<lfloor>q\<rfloor>; r = q - of_int f in
      if r < 1 / 2 then f else if 1 / 2 < r then f + 1
      else if even f then f else f + 1)"

text \<open>For \<open>x > 0\<close>, the exponent \<open>e\<close> with \<open>2^e \<le> x < 2^(e+1)\<close>.\<close>

definition float_exponent :: "rat \<Rightarrow> int" where
  "float_exponent x =
     (if 1 \<le> x then bitlen \<lfloor>x\<rfloor> - 1 else - bitlen (\<lceil>1 / x\<rceil> - 1))"

definition round_double :: "rat \<Rightarrow> rat" where
  "round_double x =
     (if x = 0 then 0
      else (let a = \<bar>x\<bar>; u = 2 powi (float_exponent a - 52)
            in sgn x * of_int (round_half_even (a / u)) * u))"

datatype py_num = PyInt int | PyFloat rat

fun num_val :: "py_num \<Rightarrow> rat" where
  "num_val (PyInt i) = of_int i"
| "num_val (PyFloat x) = x"

fun to_float :: "py_num \<Rightarrow> rat" where
  "to_float (PyInt i) = round_double (of_int i)"
| "to_float (PyFloat x) = x"

fun py_sub :: "py_num \<Rightarrow> py_num \<Rightarrow> py_num" where
  "py_sub (PyInt i) (PyInt j) = PyInt (i - j)"
| "py_sub a b = PyFloat (round_double (to_float a - to_float b))"

fun py_mul :: "py_num \<Rightarrow> py_num \<Rightarrow> py_num" where
  "py_mul (PyInt i) (PyInt j) = PyInt (i * j)"
| "py_mul a b = PyFloat (round_double (to_float a * to_float b))"

definition float_literal :: "rat \<Rightarrow> py_num" where
  "float_literal x = PyFloat (round_double x)"

function str_nat :: "nat \<Rightarrow> string" where
  "str_nat n =
     (if n < 10 then [''0123456789'' ! n]
      else str_nat (n div 10) @ [''0123456789'' ! (n mod 10)])"
  by pat_completeness auto
termination
  by (relation "measure id") auto

declare str_nat.simps [simp del]

definition str_int :: "int \<Rightarrow> string" where
  "str_int i = (if i < 0 then ''-'' @ str_nat (nat (- i)) else str_nat (nat i))"

definition str_opt_int :: "int option \<Rightarrow> string" where
  "str_opt_int v = (case v of None \<Rightarrow> ''None'' | Some i \<Rightarrow> str_int i)"

definition str_opt :: "string option \<Rightarrow> string" where
  "str_opt v = (case v of None \<Rightarrow> ''None'' | Some s \<Rightarrow> s)"

text \<open>An exception carries the text \<open>str(e)\<close> that the handlers format into notes.\<close>

fun exn_str :: "py_exception \<Rightarrow> string" where
  "exn_str (NetworkTimeoutError m) = m"
| "exn_str (ScanningNotPossibleError m) = m"
| "exn_str (InvalidTargetError m) = m"
| "exn_str (KeyError m) = m"
| "exn_str (OtherException m) = m"

definition is_lower :: "char \<Rightarrow> bool" where
  "is_lower c = (CHR ''a'' \<le> c \<and> c \<le> CHR ''z'')"

definition is_upper :: "char \<Rightarrow> bool" where
  "is_upper c = (CHR ''A'' \<le> c \<and> c \<le> CHR ''Z'')"

definition to_upper :: "char \<Rightarrow> char" where
  "to_upper c =
     (if is_lower c
      then Char (digit0 c) (digit1 c) (digit2 c) (digit3 c) (digit4 c) False (digit6 c) (digit7 c)
      else c)"

definition to_lower :: "char \<Rightarrow> char" where
  "to_lower c =
     (if is_upper c
      then Char (digit0 c) (digit1 c) (digit2 c) (digit3 c) (digit4 c) True (digit6 c) (digit7 c)
      else c)"

definition str_lower :: "string \<Rightarrow> string" where
  "str_lower s = map to_lower s"

text \<open>\<open>str.title()\<close> on ASCII text: a letter after a non-letter is upper case, any other
  letter lower case.\<close>

fun title_loop :: "bool \<Rightarrow> string \<Rightarrow> string" where
  "title_loop prev [] = []"
| "title_loop prev (c # cs) =
     (if is_lower c \<or> is_upper c
      then (if prev then to_lower c else to_upper c) # title_loop True cs
      else c # title_loop False cs)"

definition str_title :: "string \<Rightarrow> string" where
  "str_title s = title_loop False s"

definition str_replace_char :: "char \<Rightarrow> char \<Rightarrow> string \<Rightarrow> string" where
  "str_replace_char a b s = map (\<lambda>c. if c = a then b else c) s"

text \<open>\<open>w in s\<close> on strings: \<open>w\<close> occurs in \<open>s\<close> as a contiguous substring.\<close>

definition is_substring :: "string \<Rightarrow> string \<Rightarrow> bool" where
  "is_substring w s = list_ex (\<lambda>i. take (length w) (drop i s) = w) [0..<Suc (length s)]"

section \<open>Data model\<close>

text \<open>An element of \<open>open_ports\<close>; only the keys the code reads back are kept.\<close>

record port_info =
  port :: "int option"
  protocol :: "string option"
  service :: "string option"
  state :: "string option"
  port_method :: "string option"
  banner :: "string option"

text \<open>An element of a \<open>vulnerabilities\<close> list (a finding of a probe).\<close>

record vuln =
  vuln_type :: "string option"
  vuln_version :: "string option"
  vuln_severity :: "string option"
  vuln_description :: "string option"
  cve_id :: "string option"

text \<open>
  The \<open>certificate\<close> dictionary. In a category result the field is \<open>None\<close> when the key
  is absent, holds Python's \<open>None\<close> or holds an empty dictionary: the three are falsy and
  the scorer treats them alike.
\<close>

record certificate_info =
  days_until_expiry :: "int option"
  key_size :: "int option"

record dns_record =
  rec_exists :: "bool option"

record dkim_record =
  selectors_found :: "string list option"

record risk_counts =
  critical_count :: "int option"
  high_count :: "int option"
  medium_count :: "int option"
  low_count :: "int option"

record admin_interface =
  url :: "string option"
  authentication_required :: "bool option"
  mfa_detected :: "bool option"

record file_info =
  file_url :: "string option"

text \<open>
  A category result (the dictionary a scanner's \<open>scan()\<close> returns, an entry of
  \<open>scan_results\<close>): \<open>status\<close>, \<open>scan_duration\<close>, \<open>note\<close> (here
  \<open>result_note\<close>), and the payload keys that the scoring engine reads or the two modelled
  probes write. The probes store Python's \<open>None\<close> only under \<open>certificate\<close> and
  \<open>os_fingerprint\<close>; their readers apply a truth test, so such a key is modelled like an
  absent one.
\<close>

record category_result =
  status :: "string option"
  scan_duration :: "string option"
  result_note :: "string option"
  open_ports :: "port_info list option"
  os_fingerprint :: "string option"
  total_ports_scanned :: "nat option"
  scan_method :: "string option"
  tls_versions :: "string list option"
  certificate :: "certificate_info option"
  cipher_suites :: "string list option"
  hsts_enabled :: "bool option"
  vulnerabilities :: "vuln list option"
  security_score :: "rat option"
  missing_headers :: "string list option"
  spf :: "dns_record option"
  dkim :: "dkim_record option"
  dmarc :: "dns_record option"
  risk_summary :: "risk_counts option"
  admin_interfaces :: "admin_interface list option"
  exposed_backups :: "file_info list option"
  config_files :: "file_info list option"
  waf_detected :: "bool option"
  ddos_protection :: "bool option"
  rate_limiting :: "bool option"
  security_tools :: "string list option"

text \<open>The empty dictionary \<open>{}\<close>.\<close>

definition empty_result :: category_result where
  "empty_result =
     \<lparr>status = None, scan_duration = None, result_note = None, open_ports = None,
      os_fingerprint = None, total_ports_scanned = None, scan_method = None,
      tls_versions = None, certificate = None, cipher_suites = None, hsts_enabled = None,
      vulnerabilities = None, security_score = None,
      missing_headers = None, spf = None, dkim = None, dmarc = None, risk_summary = None,
      admin_interfaces = None, exposed_backups = None, config_files = None,
      waf_detected = None, ddos_protection = None, rate_limiting = None,
      security_tools = None\<rparr>"

text \<open>
  \<open>scan_results\<close>: a dictionary from category names to category results, as an
  association list in insertion order; \<open>scan_results.get(c, {})\<close> is \<open>get_result\<close>.
\<close>

type_synonym scan_results = "(string \<times> category_result) list"

definition get_result :: "scan_results \<Rightarrow> string \<Rightarrow> category_result" where
  "get_result scan_res c = getd (map_of scan_res c) empty_result"

record problem =
  category :: string
  issue :: string
  severity :: string
  description :: string
  impact :: string

record recommendation =
  problem_id :: string
  recommendation_text :: string
  effort_estimate :: string
  steps :: "string list"

record summary =
  categories_scanned :: nat
  categories_completed :: nat
  categories_failed :: int
  total_issues_found :: nat
  critical_issues :: nat
  high_issues :: nat
  medium_issues :: nat
  low_issues :: nat

section \<open>Scoring engine: category scorers\<close>

text \<open>
  Each scorer of \<open>scoring.py\<close> returns \<open>(score, problems, recommendations)\<close>. The loops
  that append to \<open>problems\<close> and add to \<open>deductions\<close> are folds over a pair
  \<open>(problems, deductions)\<close>.
\<close>

definition port_in :: "int option \<Rightarrow> int list \<Rightarrow> bool" where
  "port_in p ps = (case p of None \<Rightarrow> False | Some n \<Rightarrow> n \<in> set ps)"

definition truthy :: "bool option \<Rightarrow> bool" where
  "truthy b = (b = Some True)"

definition high_risk_ports :: "int list" where
  "high_risk_ports = [21, 23, 135, 139, 445, 1433, 3389]"

definition exposure_port_step ::
  "port_info list \<Rightarrow> port_info \<Rightarrow> problem list \<times> int \<Rightarrow> problem list \<times> int" where
  "exposure_port_step all_ports pinfo acc =
     (let p = port pinfo; svc = getd (service pinfo) ''unknown'' in
      if port_in p high_risk_ports then
        (fst acc @
           [\<lparr>category = ''internet_exposure'',
             issue = ''High-risk port '' @ str_opt_int p @ '' ('' @ svc @ '') is open'',
             severity = ''high'',
             description = ''Port '' @ str_opt_int p @ '' running '' @ svc @
               '' is accessible from the internet'',
             impact = ''Potential unauthorized access and exploitation''\<rparr>],
         snd acc + 4)
      else if port_in p [80, 8080] \<and> \<not> list_ex (\<lambda>q. port q = Some 443) all_ports then
        (fst acc @
           [\<lparr>category = ''internet_exposure'',
             issue = ''HTTP service on port '' @ str_opt_int p @ '' without HTTPS'',
             severity = ''medium'',
             description = ''Unencrypted web service detected'',
             impact = ''Data transmitted in plain text''\<rparr>],
         snd acc + 2)
      else acc)"

definition rec_insecure_protocols :: recommendation where
  "rec_insecure_protocols =
     \<lparr>problem_id = ''insecure_protocols'',
      recommendation_text =
        ''Disable insecure protocols (FTP, Telnet) and use secure alternatives'',
      effort_estimate = ''Medium'',
      steps = [''Identify services using insecure protocols'',
               ''Migrate to secure alternatives (SFTP, SSH)'',
               ''Update firewall rules to block insecure ports'',
               ''Verify secure configuration'']\<rparr>"

definition score_internet_exposure ::
  "category_result \<Rightarrow> int \<Rightarrow> int \<times> problem list \<times> recommendation list" where
  "score_internet_exposure result max_weight =
     (let ports = getd (open_ports result) [];
          acc = fold (exposure_port_step ports) ports ([], 0);
          recommendations =
            (if list_ex (\<lambda>p. port_in (port p) [21, 23]) ports
             then [rec_insecure_protocols] else []);
          score = max 0 (max_weight - snd acc)
      in (score, fst acc, recommendations))"

definition tls_vuln_step :: "vuln \<Rightarrow> problem list \<times> int \<Rightarrow> problem list \<times> int" where
  "tls_vuln_step v acc =
     (let sev = getd (vuln_severity v) ''low'' in
      (fst acc @
         [\<lparr>category = ''tls_security'',
           issue = getd (vuln_type v) ''TLS vulnerability'',
           severity = sev,
           description = getd (vuln_description v) ''TLS security issue detected'',
           impact = ''Encryption weakness''\<rparr>],
       snd acc +
         (if sev = ''critical'' then 5 else if sev = ''high'' then 3
          else if sev = ''medium'' then 1 else 0)))"

definition rec_tls_security_issues :: recommendation where
  "rec_tls_security_issues =
     \<lparr>problem_id = ''tls_security_issues'',
      recommendation_text = ''Update TLS configuration and certificates'',
      effort_estimate = ''Low'',
      steps = [''Disable TLS 1.0 and 1.1'',
               ''Enable only TLS 1.2 and 1.3'',
               ''Renew SSL certificates before expiry'',
               ''Test configuration with SSL testing tools'']\<rparr>"

definition tls_version_check :: "string list \<Rightarrow> problem list \<times> int" where
  "tls_version_check versions =
     (if ''TLSv1.0'' \<in> set versions \<or> ''TLSv1.1'' \<in> set versions then
        ([\<lparr>category = ''tls_security'',
           issue = ''Outdated TLS versions supported'',
           severity = ''high'',
           description = ''TLS 1.0/1.1 are deprecated and vulnerable'',
           impact = ''Potential for man-in-the-middle attacks''\<rparr>], 6)
      else ([], 0))"

definition tls_certificate_check ::
  "certificate_info option \<Rightarrow> problem list \<times> int \<Rightarrow> problem list \<times> int" where
  "tls_certificate_check cert acc =
     (case cert of
        None \<Rightarrow> acc
      | Some c \<Rightarrow>
          (let days = getd (days_until_expiry c) 365 in
           if days < 0 then
             (fst acc @
                [\<lparr>category = ''tls_security'',
                  issue = ''SSL certificate expired'',
                  severity = ''critical'',
                  description = ''SSL certificate has expired'',
                  impact = ''Service unavailable, security warnings''\<rparr>],
              snd acc + 8)
           else if days < 30 then
             (fst acc @
                [\<lparr>category = ''tls_security'',
                  issue = ''SSL certificate expiring soon'',
                  severity = ''medium'',
                  description = ''Certificate expires in '' @ str_int days @ '' days'',
                  impact = ''Potential service disruption''\<rparr>],
              snd acc + 3)
           else acc))"

definition score_tls_security ::
  "category_result \<Rightarrow> int \<Rightarrow> int \<times> problem list \<times> recommendation list" where
  "score_tls_security result max_weight =
     (let versions = getd (tls_versions result) [];
          cert = certificate result;
          vulns = getd (vulnerabilities result) [];
          acc = fold tls_vuln_step vulns
                  (tls_certificate_check cert (tls_version_check versions));
          recommendations = (if fst acc \<noteq> [] then [rec_tls_security_issues] else []);
          score = max 0 (max_weight - snd acc)
      in (score, fst acc, recommendations))"

definition web_header_step :: "string \<Rightarrow> problem list \<Rightarrow> problem list" where
  "web_header_step header problems =
     (if header \<in> set [''HSTS'', ''CSP''] then
        problems @
          [\<lparr>category = ''web_security'',
            issue = ''Missing '' @ header @ '' header'',
            severity = ''medium'',
            description = header @ '' security header not implemented'',
            impact = ''Reduced web application security''\<rparr>]
      else problems)"

definition web_vuln_step :: "vuln \<Rightarrow> problem list \<Rightarrow> problem list" where
  "web_vuln_step v problems =
     problems @
       [\<lparr>category = ''web_security'',
         issue = getd (vuln_type v) ''Web security issue'',
         severity = getd (vuln_severity v) ''low'',
         description = getd (vuln_description v) ''Web security vulnerability'',
         impact = ''Web application security weakness''\<rparr>]"

definition rec_web_security_headers :: recommendation where
  "rec_web_security_headers =
     \<lparr>problem_id = ''web_security_headers'',
      recommendation_text = ''Implement comprehensive security headers'',
      effort_estimate = ''Low'',
      steps = [''Configure Content Security Policy (CSP)'',
               ''Enable HSTS with appropriate max-age'',
               ''Set X-Frame-Options to DENY or SAMEORIGIN'',
               ''Add X-Content-Type-Options: nosniff'']\<rparr>"

definition score_web_security ::
  "category_result \<Rightarrow> int \<Rightarrow> int \<times> problem list \<times> recommendation list" where
  "score_web_security result max_weight =
     (let sec_score = getd (security_score result) 0;
          headers = getd (missing_headers result) [];
          vulns = getd (vulnerabilities result) [];
          score_percentage = sec_score / 100;
          base_score = py_int (of_int max_weight * score_percentage);
          problems = fold web_vuln_step vulns (fold web_header_step headers []);
          recommendations =
            (if headers \<noteq> [] \<or> vulns \<noteq> [] then [rec_web_security_headers] else [])
      in (base_score, problems, recommendations))"

definition email_record_checks :: "category_result \<Rightarrow> problem list \<times> int" where
  "email_record_checks result =
     (let a0 = ([], 0);
          a1 = (if (case spf result of None \<Rightarrow> True | Some r \<Rightarrow> \<not> truthy (rec_exists r)) then
                  (fst a0 @
                     [\<lparr>category = ''email_security'',
                       issue = ''SPF record not configured'',
                       severity = ''medium'',
                       description = ''No SPF record found for domain'',
                       impact = ''Email spoofing vulnerability''\<rparr>],
                   snd a0 + 3)
                else a0);
          a2 = (if (case dkim result of None \<Rightarrow> True
                    | Some r \<Rightarrow> getd (selectors_found r) [] = []) then
                  (fst a1 @
                     [\<lparr>category = ''email_security'',
                       issue = ''DKIM not configured'',
                       severity = ''medium'',
                       description = ''No DKIM selectors found'',
                       impact = ''Email authenticity cannot be verified''\<rparr>],
                   snd a1 + 3)
                else a1);
          a3 = (if (case dmarc result of None \<Rightarrow> True | Some r \<Rightarrow> \<not> truthy (rec_exists r)) then
                  (fst a2 @
                     [\<lparr>category = ''email_security'',
                       issue = ''DMARC policy not configured'',
                       severity = ''medium'',
                       description = ''No DMARC record found'',
                       impact = ''Email domain abuse vulnerability''\<rparr>],
                   snd a2 + 4)
                else a2)
      in a3)"

definition email_vuln_step :: "vuln \<Rightarrow> problem list \<times> int \<Rightarrow> problem list \<times> int" where
  "email_vuln_step v acc =
     (let sev = getd (vuln_severity v) ''low'' in
      (fst acc @
         [\<lparr>category = ''email_security'',
           issue = getd (vuln_type v) ''Email security issue'',
           severity = sev,
           description = getd (vuln_description v) ''Email authentication issue'',
           impact = ''Email security weakness''\<rparr>],
       snd acc + (if sev = ''high'' then 2 else if sev = ''medium'' then 1 else 0)))"

definition rec_email_authentication :: recommendation where
  "rec_email_authentication =
     \<lparr>problem_id = ''email_authentication'',
      recommendation_text = ''Implement comprehensive email authentication'',
      effort_estimate = ''Medium'',
      steps = [''Configure SPF record with appropriate policy'',
               ''Set up DKIM signing for outbound emails'',
               ''Implement DMARC policy starting with p=none'',
               ''Monitor DMARC reports and gradually strengthen policy'']\<rparr>"

definition score_email_security ::
  "category_result \<Rightarrow> int \<Rightarrow> int \<times> problem list \<times> recommendation list" where
  "score_email_security result max_weight =
     (let vulns = getd (vulnerabilities result) [];
          acc = fold email_vuln_step vulns (email_record_checks result);
          recommendations = (if fst acc \<noteq> [] then [rec_email_authentication] else []);
          score = max 0 (max_weight - snd acc)
      in (score, fst acc, recommendations))"

definition cve_vuln_step :: "vuln \<Rightarrow> problem list \<Rightarrow> problem list" where
  "cve_vuln_step v problems =
     problems @
       [\<lparr>category = ''vulnerabilities'',
         issue = ''CVE '' @ getd (cve_id v) ''Unknown'' @ '' detected'',
         severity = getd (vuln_severity v) ''medium'',
         description = getd (vuln_description v) ''Known vulnerability detected'',
         impact = ''Potential for exploitation and system compromise''\<rparr>]"

definition rec_critical_vulnerabilities :: recommendation where
  "rec_critical_vulnerabilities =
     \<lparr>problem_id = ''critical_vulnerabilities'',
      recommendation_text =
        ''Immediately patch critical and high severity vulnerabilities'',
      effort_estimate = ''High'',
      steps = [''Prioritize critical vulnerabilities for immediate patching'',
               ''Test patches in staging environment'',
               ''Apply patches to production systems'',
               ''Verify vulnerability remediation with rescanning'']\<rparr>"

definition no_risk_counts :: risk_counts where
  "no_risk_counts =
     \<lparr>critical_count = None, high_count = None, medium_count = None, low_count = None\<rparr>"

definition cve_deductions :: "risk_counts \<Rightarrow> rat" where
  "cve_deductions rs =
     0 + of_int (getd (critical_count rs) 0 * 8)
       + of_int (getd (high_count rs) 0 * 4)
       + of_int (getd (medium_count rs) 0 * 2)
       + of_int (getd (low_count rs) 0) * (1 / 2)"

definition score_vulnerabilities ::
  "category_result \<Rightarrow> int \<Rightarrow> int \<times> problem list \<times> recommendation list" where
  "score_vulnerabilities result max_weight =
     (let vulns = getd (vulnerabilities result) [];
          rs = getd (risk_summary result) no_risk_counts;
          deductions = cve_deductions rs;
          problems = fold cve_vuln_step vulns [];
          recommendations =
            (if getd (critical_count rs) 0 > 0 \<or> getd (high_count rs) 0 > 0
             then [rec_critical_vulnerabilities] else []);
          score = max 0 (max_weight - py_int deductions)
      in (score, problems, recommendations))"

definition iam_interface_step ::
  "admin_interface \<Rightarrow> problem list \<times> int \<Rightarrow> problem list \<times> int" where
  "iam_interface_step interface acc =
     (let a1 = (if \<not> truthy (authentication_required interface) then
                  (fst acc @
                     [\<lparr>category = ''iam_assessment'',
                       issue = ''Exposed admin interface'',
                       severity = ''critical'',
                       description =
                         ''Admin interface accessible without authentication: '' @
                         str_opt (url interface),
                       impact = ''Unauthorized administrative access''\<rparr>],
                   snd acc + 6)
                else acc);
          a2 = (if \<not> truthy (mfa_detected interface) then
                  (fst a1 @
                     [\<lparr>category = ''iam_assessment'',
                       issue = ''Missing multi-factor authentication'',
                       severity = ''medium'',
                       description = ''Admin interface lacks MFA protection'',
                       impact = ''Increased risk of credential compromise''\<rparr>],
                   snd a1 + 2)
                else a1)
      in a2)"

definition iam_vuln_step :: "vuln \<Rightarrow> problem list \<times> int \<Rightarrow> problem list \<times> int" where
  "iam_vuln_step v acc =
     (let sev = getd (vuln_severity v) ''low'' in
      (fst acc @
         [\<lparr>category = ''iam_assessment'',
           issue = getd (vuln_type v) ''IAM security issue'',
           severity = sev,
           description = getd (vuln_description v) ''Access control vulnerability'',
           impact = ''Unauthorized access risk''\<rparr>],
       snd acc +
         (if sev = ''critical'' then 4 else if sev = ''high'' then 2
          else if sev = ''medium'' then 1 else 0)))"

definition rec_iam_security :: recommendation where
  "rec_iam_security =
     \<lparr>problem_id = ''iam_security'',
      recommendation_text = ''Strengthen access controls and authentication'',
      effort_estimate = ''Medium'',
      steps = [''Implement MFA for all admin interfaces'',
               ''Restrict admin access by IP whitelist'',
               ''Regular access reviews and cleanup'',
               ''Implement principle of least privilege'']\<rparr>"

definition score_iam_assessment ::
  "category_result \<Rightarrow> int \<Rightarrow> int \<times> problem list \<times> recommendation list" where
  "score_iam_assessment result max_weight =
     (let interfaces = getd (admin_interfaces result) [];
          vulns = getd (vulnerabilities result) [];
          acc = fold iam_vuln_step vulns (fold iam_interface_step interfaces ([], 0));
          recommendations = (if fst acc \<noteq> [] then [rec_iam_security] else []);
          score = max 0 (max_weight - snd acc)
      in (score, fst acc, recommendations))"

definition backup_file_step ::
  "file_info \<Rightarrow> problem list \<times> int \<Rightarrow> problem list \<times> int" where
  "backup_file_step backup acc =
     (fst acc @
        [\<lparr>category = ''backup_dr'',
          issue = ''Exposed backup file'',
          severity = ''critical'',
          description = ''Backup file publicly accessible: '' @ str_opt (file_url backup),
          impact = ''Data exposure and potential system compromise''\<rparr>],
      snd acc + 2)"

definition backup_config_step ::
  "file_info \<Rightarrow> problem list \<times> int \<Rightarrow> problem list \<times> int" where
  "backup_config_step config acc =
     (fst acc @
        [\<lparr>category = ''backup_dr'',
          issue = ''Exposed configuration file'',
          severity = ''critical'',
          description =
            ''Configuration file publicly accessible: '' @ str_opt (file_url config),
          impact = ''Sensitive configuration data exposure''\<rparr>],
      snd acc + 2)"

definition backup_vuln_step :: "vuln \<Rightarrow> problem list \<times> int \<Rightarrow> problem list \<times> int" where
  "backup_vuln_step v acc =
     (let sev = getd (vuln_severity v) ''low'' in
      (fst acc @
         [\<lparr>category = ''backup_dr'',
           issue = getd (vuln_type v) ''Backup security issue'',
           severity = sev,
           description = getd (vuln_description v) ''Backup/DR security issue'',
           impact = ''Data protection weakness''\<rparr>],
       snd acc + (if sev = ''critical'' then 2 else if sev = ''high'' then 1 else 0)))"

definition rec_backup_security :: recommendation where
  "rec_backup_security =
     \<lparr>problem_id = ''backup_security'',
      recommendation_text = ''Secure backup files and configuration'',
      effort_estimate = ''Low'',
      steps = [''Remove backup files from public directories'',
               ''Implement proper backup storage security'',
               ''Use encrypted backup solutions'',
               ''Regular backup security audits'']\<rparr>"

definition score_backup_dr ::
  "category_result \<Rightarrow> int \<Rightarrow> int \<times> problem list \<times> recommendation list" where
  "score_backup_dr result max_weight =
     (let backups = getd (exposed_backups result) [];
          configs = getd (config_files result) [];
          vulns = getd (vulnerabilities result) [];
          acc = fold backup_vuln_step vulns
                  (fold backup_config_step configs (fold backup_file_step backups ([], 0)));
          recommendations = (if fst acc \<noteq> [] then [rec_backup_security] else []);
          score = max 0 (max_weight - snd acc)
      in (score, fst acc, recommendations))"

definition rec_security_monitoring :: recommendation where
  "rec_security_monitoring =
     \<lparr>problem_id = ''security_monitoring'',
      recommendation_text = ''Implement comprehensive security monitoring'',
      effort_estimate = ''High'',
      steps = [''Deploy Web Application Firewall (WAF)'',
               ''Implement DDoS protection'',
               ''Configure rate limiting'',
               ''Set up security event monitoring and alerting'']\<rparr>"

definition score_security_monitoring ::
  "category_result \<Rightarrow> int \<Rightarrow> int \<times> problem list \<times> recommendation list" where
  "score_security_monitoring result max_weight =
     (let waf = getd (waf_detected result) False;
          ddos = getd (ddos_protection result) False;
          rate = getd (rate_limiting result) False;
          tools = getd (security_tools result) [];
          a0 = ([], max_weight);
          a1 = (if \<not> waf then
                  (fst a0 @
                     [\<lparr>category = ''logging_monitoring'',
                       issue = ''No WAF detected'',
                       severity = ''low'',
                       description = ''Web Application Firewall not detected'',
                       impact = ''Reduced protection against web attacks''\<rparr>],
                   snd a0 - 1)
                else a0);
          a2 = (if \<not> ddos then
                  (fst a1 @
                     [\<lparr>category = ''logging_monitoring'',
                       issue = ''No DDoS protection detected'',
                       severity = ''low'',
                       description = ''DDoS protection mechanisms not detected'',
                       impact = ''Vulnerability to denial of service attacks''\<rparr>],
                   snd a1 - 1)
                else a1);
          a3 = (if \<not> rate then
                  (fst a2 @
                     [\<lparr>category = ''logging_monitoring'',
                       issue = ''No rate limiting detected'',
                       severity = ''low'',
                       description = ''Rate limiting not implemented'',
                       impact = ''Vulnerability to abuse and DoS attacks''\<rparr>],
                   snd a2 - 1)
                else a2);
          recommendations = (if tools = [] then [rec_security_monitoring] else [])
      in (max 0 (snd a3), fst a3, recommendations))"

definition score_category ::
  "string \<Rightarrow> category_result \<Rightarrow> int \<Rightarrow> int \<times> problem list \<times> recommendation list" where
  "score_category cat category_res max_weight =
     (if cat = ''internet_exposure'' then score_internet_exposure category_res max_weight
      else if cat = ''tls_security'' then score_tls_security category_res max_weight
      else if cat = ''web_security'' then score_web_security category_res max_weight
      else if cat = ''email_security'' then score_email_security category_res max_weight
      else if cat = ''vulnerabilities'' then score_vulnerabilities category_res max_weight
      else if cat = ''iam_assessment'' then score_iam_assessment category_res max_weight
      else if cat = ''backup_dr'' then score_backup_dr category_res max_weight
      else if cat = ''logging_monitoring'' then
        score_security_monitoring category_res max_weight
      else (max_weight, [], []))"

section \<open>Scoring engine: aggregation\<close>

definition category_weights :: "(string \<times> int) list" where
  "category_weights =
     [(''internet_exposure'', 20), (''tls_security'', 15), (''web_security'', 15),
      (''email_security'', 10), (''vulnerabilities'', 25), (''iam_assessment'', 8),
      (''backup_dr'', 4), (''logging_monitoring'', 3)]"

definition max_category_deduction :: "(string \<times> int) list" where
  "max_category_deduction =
     [(''internet_exposure'', 20), (''tls_security'', 15), (''web_security'', 15),
      (''email_security'', 10), (''vulnerabilities'', 25), (''iam_assessment'', 8),
      (''backup_dr'', 4), (''logging_monitoring'', 3)]"

definition severity_order :: "(string \<times> nat) list" where
  "severity_order = [(''critical'', 0), (''high'', 1), (''medium'', 2), (''low'', 3)]"

text \<open>
  The sort key of \<open>_prioritize_problems\<close>: a tuple, compared lexicographically; strings
  are compared character by character, by code point. Python's \<open>sorted\<close> is stable, as
  \<open>sort_key\<close> is.
\<close>

definition problem_key :: "problem \<Rightarrow> nat \<times> string" where
  "problem_key x = (getd (map_of severity_order (severity x)) 3, category x)"

definition prioritize_problems :: "problem list \<Rightarrow> problem list" where
  "prioritize_problems problems = sort_key problem_key problems"

fun consolidate_loop ::
  "recommendation list \<Rightarrow> string set \<Rightarrow> recommendation list \<Rightarrow> recommendation list" where
  "consolidate_loop [] seen_recommendations unique_recommendations = unique_recommendations"
| "consolidate_loop (r # rs) seen_recommendations unique_recommendations =
     (let rec_key = recommendation_text r in
      if rec_key \<notin> seen_recommendations then
        consolidate_loop rs (insert rec_key seen_recommendations) (unique_recommendations @ [r])
      else consolidate_loop rs seen_recommendations unique_recommendations)"

definition consolidate_recommendations :: "recommendation list \<Rightarrow> recommendation list" where
  "consolidate_recommendations recs = consolidate_loop recs {} []"

text \<open>The dictionary \<open>severity_counts\<close> of \<open>_generate_summary\<close>, with its four fixed keys.\<close>

record severity_counts =
  n_critical :: nat
  n_high :: nat
  n_medium :: nat
  n_low :: nat

definition severity_count_step :: "problem \<Rightarrow> severity_counts \<Rightarrow> severity_counts" where
  "severity_count_step p counts =
     (let sev = severity p in
      if sev = ''critical'' then counts\<lparr>n_critical := n_critical counts + 1\<rparr>
      else if sev = ''high'' then counts\<lparr>n_high := n_high counts + 1\<rparr>
      else if sev = ''medium'' then counts\<lparr>n_medium := n_medium counts + 1\<rparr>
      else if sev = ''low'' then counts\<lparr>n_low := n_low counts + 1\<rparr>
      else counts)"

definition generate_summary ::
  "scan_results \<Rightarrow> (string \<rightharpoonup> rat) \<Rightarrow> problem list \<Rightarrow> summary" where
  "generate_summary scan_res cat_scores problems =
     (let total_categories = length category_weights;
          completed_categories =
            length (filter (\<lambda>result. status result = Some ''completed'') (map snd scan_res));
          failed_categories = int total_categories - int completed_categories;
          counts = fold severity_count_step problems
                     \<lparr>n_critical = 0, n_high = 0, n_medium = 0, n_low = 0\<rparr>
      in \<lparr>categories_scanned = total_categories,
          categories_completed = completed_categories,
          categories_failed = failed_categories,
          total_issues_found = length problems,
          critical_issues = n_critical counts,
          high_issues = n_high counts,
          medium_issues = n_medium counts,
          low_issues = n_low counts\<rparr>)"

text \<open>
  The local variables of \<open>calculate_score\<close> that its loop updates. \<open>running_total\<close> is
  the variable \<open>total_score\<close> as a Python number (an int until the first failed category,
  a float from then on); \<open>total_score\<close> is its value. \<open>category_scores\<close> holds the values
  of the numbers stored.
\<close>

record score_state =
  running_total :: py_num
  all_problems :: "problem list"
  all_recommendations :: "recommendation list"
  category_scores :: "string \<rightharpoonup> rat"

definition total_score :: "score_state \<Rightarrow> rat" where
  "total_score st = num_val (running_total st)"

definition score_init :: score_state where
  "score_init =
     \<lparr>running_total = PyInt 100, all_problems = [], all_recommendations = [],
      category_scores = Map.empty\<rparr>"

text \<open>
  One iteration of \<open>for category, weight in self.category_weights.items()\<close>. The lookup
  \<open>self.max_category_deduction[category]\<close> raises \<open>KeyError\<close> on a missing key. In the
  failed branch \<open>weight * 0.8\<close> and \<open>weight * 0.2\<close> are products of an int and a float
  literal, and \<open>total_score -= ...\<close> is a float subtraction; in the completed branch the
  deduction is an int.
\<close>

definition score_step ::
  "scan_results \<Rightarrow> string \<times> int \<Rightarrow> score_state \<Rightarrow> py_exception + score_state" where
  "score_step scan_res cw st =
     (let cat = fst cw; weight = snd cw; category_res = get_result scan_res cat in
      if status category_res = Some ''completed'' then
        (let r = score_category cat category_res weight;
             score = fst r; problems = fst (snd r); recommendations = snd (snd r)
         in case map_of max_category_deduction cat of
              None \<Rightarrow> Inl (KeyError cat)
            | Some max_deduction \<Rightarrow>
                (let deduction = min (weight - score) max_deduction in
                 Inr (st\<lparr>category_scores := (category_scores st)(cat \<mapsto> of_int score),
                         all_problems := all_problems st @ problems,
                         all_recommendations := all_recommendations st @ recommendations,
                         running_total := py_sub (running_total st) (PyInt deduction)\<rparr>)))
      else
        Inr (st\<lparr>category_scores :=
                  (category_scores st)
                    (cat \<mapsto> num_val (py_mul (PyInt weight) (float_literal (4 / 5)))),
                running_total :=
                  py_sub (running_total st)
                    (py_mul (PyInt weight) (float_literal (1 / 5)))\<rparr>))"

fun score_loop ::
  "scan_results \<Rightarrow> (string \<times> int) list \<Rightarrow> score_state \<Rightarrow> py_exception + score_state" where
  "score_loop scan_res [] st = Inr st"
| "score_loop scan_res (cw # cws) st =
     (case score_step scan_res cw st of
        Inl e \<Rightarrow> Inl e
      | Inr st' \<Rightarrow> score_loop scan_res cws st')"

definition calculate_score ::
  "scan_results \<Rightarrow>
   py_exception + (int \<times> problem list \<times> recommendation list \<times> summary)" where
  "calculate_score scan_res =
     (case score_loop scan_res category_weights score_init of
        Inl e \<Rightarrow> Inl e
      | Inr st \<Rightarrow>
          (let final_score = max 0 (min 100 (py_int (total_score st)));
               sorted_problems = prioritize_problems (all_problems st);
               unique_recommendations = consolidate_recommendations (all_recommendations st);
               summ = generate_summary scan_res (category_scores st) sorted_problems
           in Inr (final_score, sorted_problems, unique_recommendations, summ)))"

section \<open>Scanner contract\<close>

text \<open>
  The attributes of \<open>BaseScanner\<close> that the modelled methods read. \<open>clock_text\<close> is the text
  \<open>get_scan_duration\<close> formats from the wall clock once \<open>start_time\<close> is set; it is not
  computed here.
\<close>

record scanner =
  target :: string
  scan_type :: string
  timeout :: int
  started :: bool
  clock_text :: string

definition start_scan :: "'a scanner_scheme \<Rightarrow> 'a scanner_scheme" where
  "start_scan sc = sc\<lparr>started := True\<rparr>"

definition get_scan_duration :: "'a scanner_scheme \<Rightarrow> string option" where
  "get_scan_duration sc = (if \<not> started sc then None else Some (clock_text sc))"

definition upd :: "'a option \<Rightarrow> 'a option \<Rightarrow> 'a option" where
  "upd new old = (case new of None \<Rightarrow> old | Some x \<Rightarrow> Some x)"

text \<open>\<open>result.update(data)\<close>: every key of \<open>data\<close> overwrites the key of \<open>result\<close>.\<close>

definition dict_update :: "category_result \<Rightarrow> category_result \<Rightarrow> category_result" where
  "dict_update result data =
     \<lparr>status = upd (status data) (status result),
      scan_duration = upd (scan_duration data) (scan_duration result),
      result_note = upd (result_note data) (result_note result),
      open_ports = upd (open_ports data) (open_ports result),
      os_fingerprint = upd (os_fingerprint data) (os_fingerprint result),
      total_ports_scanned = upd (total_ports_scanned data) (total_ports_scanned result),
      scan_method = upd (scan_method data) (scan_method result),
      tls_versions = upd (tls_versions data) (tls_versions result),
      certificate = upd (certificate data) (certificate result),
      cipher_suites = upd (cipher_suites data) (cipher_suites result),
      hsts_enabled = upd (hsts_enabled data) (hsts_enabled result),
      vulnerabilities = upd (vulnerabilities data) (vulnerabilities result),
      security_score = upd (security_score data) (security_score result),
      missing_headers = upd (missing_headers data) (missing_headers result),
      spf = upd (spf data) (spf result),
      dkim = upd (dkim data) (dkim result),
      dmarc = upd (dmarc data) (dmarc result),
      risk_summary = upd (risk_summary data) (risk_summary result),
      admin_interfaces = upd (admin_interfaces data) (admin_interfaces result),
      exposed_backups = upd (exposed_backups data) (exposed_backups result),
      config_files = upd (config_files data) (config_files result),
      waf_detected = upd (waf_detected data) (waf_detected result),
      ddos_protection = upd (ddos_protection data) (ddos_protection result),
      rate_limiting = upd (rate_limiting data) (rate_limiting result),
      security_tools = upd (security_tools data) (security_tools result)\<rparr>"

definition create_result ::
  "'a scanner_scheme \<Rightarrow> string \<Rightarrow> category_result option \<Rightarrow> string option \<Rightarrow> category_result" where
  "create_result sc stat data note_arg =
     (let result = empty_result\<lparr>status := Some stat, scan_duration := get_scan_duration sc\<rparr>;
          result1 = (case data of None \<Rightarrow> result | Some d \<Rightarrow> dict_update result d)
      in case note_arg of
           None \<Rightarrow> result1
         | Some n \<Rightarrow> if n \<noteq> [] then result1\<lparr>result_note := Some n\<rparr> else result1)"

definition handle_timeout :: "'a scanner_scheme \<Rightarrow> string \<Rightarrow> category_result" where
  "handle_timeout sc operation =
     create_result sc ''failed'' None
       (Some (''Data not obtained; '' @ operation @ '' timed out after '' @
              str_int (timeout sc) @ '' seconds''))"

definition handle_network_error ::
  "'a scanner_scheme \<Rightarrow> string \<Rightarrow> string option \<Rightarrow> category_result" where
  "handle_network_error sc operation error =
     (let note0 = ''Data not obtained; '' @ operation @ '' failed'';
          note1 = (case error of
                     None \<Rightarrow> note0
                   | Some e \<Rightarrow> if e \<noteq> [] then note0 @ '': '' @ e else note0)
      in create_result sc ''failed'' None (Some note1))"

definition handle_service_not_found :: "'a scanner_scheme \<Rightarrow> string \<Rightarrow> category_result" where
  "handle_service_not_found sc svc =
     create_result sc ''failed'' None
       (Some (''Scanning not possible; '' @ svc @ '' not detected or available''))"

definition should_scan_quickly :: "'a scanner_scheme \<Rightarrow> bool" where
  "should_scan_quickly sc = (scan_type sc = ''quick'')"

definition COMMON_PORTS :: "int list" where
  "COMMON_PORTS = [21, 22, 23, 25, 53, 80, 110, 143, 443, 993, 995, 3389, 8080, 8443]"

section \<open>Service discovery probe\<close>

text \<open>
  The network is a parameter. \<open>connect_ex tr p\<close> is what \<open>sock.connect_ex\<close> does on port
  \<open>p\<close> when \<open>tr\<close> lists the ports already tried in this invocation: it returns an error
  code (0 for a completed connect) or raises. The thread pool runs the attempts
  concurrently and \<open>executor.map\<close> returns the results in the order of the port list; the
  model makes the attempts in that order. \<open>nmap_open_ports\<close> stands for
  \<open>_perform_nmap_scan\<close> followed by \<open>_extract_nmap_port_info\<close>, \<open>os_detection\<close> for
  \<open>_perform_os_detection\<close> (which catches its own errors) and \<open>grab_banner\<close> for
  \<open>_grab_banner\<close> (which returns \<open>None\<close> on any error).
\<close>

datatype connect_outcome = ConnectReturned int | ConnectRaised py_exception

record exposure_env =
  connect_ex :: "int list \<Rightarrow> int \<Rightarrow> connect_outcome"
  nmap_open_ports :: "int list \<Rightarrow> py_exception + port_info list"
  os_detection :: "string option"
  grab_banner :: "int \<Rightarrow> string option"

record exposure_scanner = scanner +
  use_nmap :: bool

definition get_scan_ports :: "'a scanner_scheme \<Rightarrow> int list" where
  "get_scan_ports sc =
     (if scan_type sc = ''quick'' then COMMON_PORTS
      else if scan_type sc = ''full'' then [1..1000]
      else COMMON_PORTS)"

definition common_services :: "(int \<times> string) list" where
  "common_services =
     [(21, ''ftp''), (22, ''ssh''), (23, ''telnet''), (25, ''smtp''), (53, ''dns''),
      (80, ''http''), (110, ''pop3''), (143, ''imap''), (443, ''https''), (993, ''imaps''),
      (995, ''pop3s''), (465, ''smtps''), (587, ''submission''), (8080, ''http-proxy''),
      (8443, ''https-alt''), (3389, ''rdp''), (1433, ''mssql''), (3306, ''mysql''),
      (5432, ''postgresql''), (6379, ''redis''), (27017, ''mongodb'')]"

definition guess_service_name :: "int \<Rightarrow> string" where
  "guess_service_name p = getd (map_of common_services p) ''unknown''"

text \<open>
  The inner function \<open>scan_port\<close>: one call of \<open>connect_ex\<close>, recorded in the trace; any
  exception is caught and gives \<open>None\<close>.
\<close>

definition scan_port ::
  "'e exposure_env_scheme \<Rightarrow> int \<Rightarrow> int list \<Rightarrow> port_info option \<times> int list" where
  "scan_port env p tr =
     (case connect_ex env tr p of
        ConnectReturned res \<Rightarrow>
          (if res = 0 then
             Some \<lparr>port = Some p, protocol = Some ''tcp'',
                   service = Some (guess_service_name p), state = Some ''open'',
                   port_method = Some ''socket_connect'', banner = None\<rparr>
           else None, tr @ [p])
      | ConnectRaised e \<Rightarrow> (None, tr @ [p]))"

fun executor_map ::
  "'e exposure_env_scheme \<Rightarrow> int list \<Rightarrow> int list \<Rightarrow> port_info option list \<times> int list" where
  "executor_map env [] tr = ([], tr)"
| "executor_map env (p # ps) tr =
     (let r = scan_port env p tr; rest = executor_map env ps (snd r)
      in (fst r # fst rest, snd rest))"

text \<open>
  \<open>_perform_socket_scan\<close>: the open ports found and the trace of connection attempts.
  \<open>ThreadPoolExecutor(max_workers=0)\<close> raises \<open>ValueError\<close>, so an empty port list raises
  before any attempt.
\<close>

definition perform_socket_scan ::
  "'e exposure_env_scheme \<Rightarrow> int list \<Rightarrow> py_exception + (port_info list \<times> int list)" where
  "perform_socket_scan env ports =
     (let max_threads = min 50 (length ports) in
      if max_threads \<le> 0 then Inl (OtherException ''max_workers must be greater than 0'')
      else
        (let results = executor_map env ports []
         in Inr (List.map_filter (\<lambda>result. result) (fst results), snd results)))"

text \<open>
  One iteration of the loop of \<open>_perform_banner_grabbing\<close>. A record without the key
  \<open>port\<close> raises \<open>KeyError\<close> in the \<open>try\<close> block and again in the handler, which formats
  \<open>port_info['port']\<close> into its log line: that second error leaves the method.
\<close>

definition banner_step ::
  "'e exposure_env_scheme \<Rightarrow> port_info \<Rightarrow> py_exception + port_info" where
  "banner_step env pinfo =
     (case port pinfo of
        None \<Rightarrow> Inl (KeyError ''port'')
      | Some p \<Rightarrow>
          (case protocol pinfo of
             None \<Rightarrow> Inr pinfo
           | Some proto \<Rightarrow>
               if str_lower proto \<noteq> ''tcp'' then Inr pinfo
               else (case grab_banner env p of
                       None \<Rightarrow> Inr pinfo
                     | Some b \<Rightarrow> if b \<noteq> [] then Inr (pinfo\<lparr>banner := Some b\<rparr>) else Inr pinfo)))"

fun banner_loop ::
  "'e exposure_env_scheme \<Rightarrow> port_info list \<Rightarrow> py_exception + port_info list" where
  "banner_loop env [] = Inr []"
| "banner_loop env (pinfo # rest) =
     (case banner_step env pinfo of
        Inl e \<Rightarrow> Inl e
      | Inr pinfo' \<Rightarrow>
          (case banner_loop env rest of
             Inl e \<Rightarrow> Inl e
           | Inr rest' \<Rightarrow> Inr (pinfo' # rest')))"

definition perform_banner_grabbing ::
  "'e exposure_env_scheme \<Rightarrow> 'a scanner_scheme \<Rightarrow> port_info list \<Rightarrow> py_exception + port_info list" where
  "perform_banner_grabbing env sc ports =
     (if should_scan_quickly sc then Inr ports else banner_loop env ports)"

text \<open>The body of the \<open>try\<close> block of \<open>InternetExposureScanner.scan\<close>.\<close>

definition exposure_scan_body ::
  "'e exposure_env_scheme \<Rightarrow> 'a exposure_scanner_scheme \<Rightarrow> py_exception + category_result" where
  "exposure_scan_body env sc =
     (let ports_to_scan = get_scan_ports sc;
          scanned =
            (if use_nmap sc then nmap_open_ports env ports_to_scan
             else (case perform_socket_scan env ports_to_scan of
                     Inl e \<Rightarrow> Inl e
                   | Inr r \<Rightarrow> Inr (fst r)))
      in case scanned of
           Inl e \<Rightarrow> Inl e
         | Inr found \<Rightarrow>
             (let fingerprint =
                    (if found \<noteq> [] \<and> \<not> should_scan_quickly sc \<and> use_nmap sc
                     then os_detection env else None)
              in case (if found \<noteq> [] then perform_banner_grabbing env sc found else Inr found) of
                   Inl e \<Rightarrow> Inl e
                 | Inr found' \<Rightarrow>
                     Inr (create_result sc ''completed''
                            (Some (empty_result
                               \<lparr>open_ports := Some found',
                                os_fingerprint := fingerprint,
                                total_ports_scanned := Some (length ports_to_scan),
                                scan_duration := get_scan_duration sc,
                                scan_method :=
                                  Some (if use_nmap sc then ''nmap'' else ''socket'')\<rparr>))
                            None)))"

text \<open>
  \<open>scan()\<close> returns \<open>Inr\<close> of its result; \<open>Inl e\<close> would be an exception \<open>e\<close> raised to
  the caller. The three \<open>except\<close> clauses are tried in the order of the source.
\<close>

definition exposure_scan ::
  "'e exposure_env_scheme \<Rightarrow> 'a exposure_scanner_scheme \<Rightarrow> py_exception + category_result" where
  "exposure_scan env sc0 =
     (let sc = start_scan sc0 in
      case exposure_scan_body env sc of
        Inr result \<Rightarrow> Inr result
      | Inl (NetworkTimeoutError m) \<Rightarrow> Inr (handle_timeout sc ''port scanning'')
      | Inl (ScanningNotPossibleError m) \<Rightarrow>
          Inr (handle_network_error sc ''port scanning'' (Some m))
      | Inl e \<Rightarrow> Inr (handle_network_error sc ''port scanning'' (Some (exn_str e))))"

section \<open>TLS and certificate probe\<close>

text \<open>
  The network is again a parameter: \<open>tls_port_open\<close> is \<open>_is_port_open_tls\<close> (which turns
  every error into \<open>False\<close>); \<open>handshake p v\<close> is the outcome of the handshake on port \<open>p\<close>
  restricted to protocol version \<open>v\<close>; \<open>peer_certificate p\<close> is the parsed certificate with
  its computed \<open>days_until_expiry\<close> and key size, or the error of the connection or of the
  parser; \<open>negotiated_cipher p\<close> is the name in \<open>ssock.cipher()\<close>; \<open>hsts_check\<close> is the run
  of \<open>asyncio.run(self._check_hsts())\<close>: the outer error is one of \<open>asyncio.run\<close> itself,
  the inner one is raised, caught and logged inside \<open>_check_hsts\<close>, and the value is the
  \<open>Strict-Transport-Security\<close> header. The certificate chain and \<open>hsts_max_age\<close> are
  not modelled: they produce no finding and nothing modelled reads them.
\<close>

datatype handshake_outcome = HandshakeOk | HandshakeSSLError | HandshakeException

record peer_cert =
  pc_days_until_expiry :: int
  pc_key_size :: int

record tls_env =
  tls_port_open :: "int \<Rightarrow> bool"
  handshake :: "int \<Rightarrow> string \<Rightarrow> handshake_outcome"
  peer_certificate :: "int \<Rightarrow> py_exception + peer_cert"
  negotiated_cipher :: "int \<Rightarrow> py_exception + string option"
  hsts_check :: "py_exception + (py_exception + string option)"

record tls_service =
  svc_port :: int
  svc_protocol :: string

definition tls_ports :: "int list" where
  "tls_ports = [443, 993, 995, 465, 587, 636, 989, 990]"

definition tls_initial_results :: category_result where
  "tls_initial_results =
     empty_result\<lparr>tls_versions := Some [], certificate := None, cipher_suites := Some [],
                  hsts_enabled := Some False, vulnerabilities := Some []\<rparr>"

definition protocol_map :: "(int \<times> string) list" where
  "protocol_map =
     [(443, ''HTTPS''), (993, ''IMAPS''), (995, ''POP3S''), (465, ''SMTPS''),
      (587, ''SMTP with STARTTLS''), (636, ''LDAPS''), (989, ''FTPS Data''),
      (990, ''FTPS Control'')]"

definition get_protocol_for_port :: "int \<Rightarrow> string" where
  "get_protocol_for_port p = getd (map_of protocol_map p) (''TLS on port '' @ str_int p)"

fun find_tls_loop :: "'e tls_env_scheme \<Rightarrow> bool \<Rightarrow> int list \<Rightarrow> tls_service list" where
  "find_tls_loop env quick [] = []"
| "find_tls_loop env quick (p # ps) =
     (if tls_port_open env p then
        \<lparr>svc_port = p, svc_protocol = get_protocol_for_port p\<rparr> #
          (if quick then [] else find_tls_loop env quick ps)
      else find_tls_loop env quick ps)"

definition find_tls_services :: "'e tls_env_scheme \<Rightarrow> 'a scanner_scheme \<Rightarrow> tls_service list" where
  "find_tls_services env sc =
     (let ports_to_check = (if \<not> should_scan_quickly sc then tls_ports else [443])
      in find_tls_loop env (should_scan_quickly sc) ports_to_check)"

definition tls_version_names :: "string list" where
  "tls_version_names = [''TLSv1.0'', ''TLSv1.1'', ''TLSv1.2'', ''TLSv1.3'']"

definition vulnerable_versions :: "string list" where
  "vulnerable_versions = [''TLSv1.0'', ''TLSv1.1'', ''SSLv2'', ''SSLv3'']"

definition weak_tls_version_finding :: "string \<Rightarrow> vuln" where
  "weak_tls_version_finding vuln_ver =
     \<lparr>vuln_type = Some ''weak_tls_version'',
      vuln_version = Some vuln_ver,
      vuln_severity = Some (if vuln_ver \<in> set [''SSLv2'', ''SSLv3''] then ''high'' else ''medium''),
      vuln_description = Some (vuln_ver @ '' is deprecated and vulnerable to attacks''),
      cve_id = None\<rparr>"

text \<open>
  \<open>_test_tls_versions\<close>: a version is supported when its handshake completes; both
  \<open>except\<close> clauses go on to the next version. The list \<open>tls_versions\<close> is replaced, the
  findings are appended to \<open>vulnerabilities\<close>.
\<close>

definition test_tls_versions ::
  "'e tls_env_scheme \<Rightarrow> int \<Rightarrow> category_result \<Rightarrow> category_result" where
  "test_tls_versions env p results =
     (let supported_versions =
            filter (\<lambda>version_name. handshake env p version_name = HandshakeOk) tls_version_names;
          findings =
            map weak_tls_version_finding
              (filter (\<lambda>vuln_ver. vuln_ver \<in> set supported_versions) vulnerable_versions)
      in results\<lparr>tls_versions := Some supported_versions,
                 vulnerabilities := Some (getd (vulnerabilities results) [] @ findings)\<rparr>)"

definition get_certificate_info ::
  "'e tls_env_scheme \<Rightarrow> int \<Rightarrow> category_result \<Rightarrow> category_result" where
  "get_certificate_info env p results =
     (case peer_certificate env p of
        Inl e \<Rightarrow> results
      | Inr pc \<Rightarrow>
          (let days = pc_days_until_expiry pc;
               expiry =
                 (if days < 30 then
                    [\<lparr>vuln_type = Some ''certificate_expiry'',
                      vuln_version = None,
                      vuln_severity = Some (if days < 0 then ''high'' else ''medium''),
                      vuln_description =
                        Some (''Certificate expires in '' @ str_int days @ '' days''),
                      cve_id = None\<rparr>]
                  else []);
               weak_key =
                 (if pc_key_size pc < 2048 then
                    [\<lparr>vuln_type = Some ''weak_key_size'',
                      vuln_version = None,
                      vuln_severity = Some ''medium'',
                      vuln_description =
                        Some (''Certificate uses weak key size: '' @ str_int (pc_key_size pc) @
                              '' bits''),
                      cve_id = None\<rparr>]
                  else [])
           in results\<lparr>vulnerabilities :=
                        Some (getd (vulnerabilities results) [] @ expiry @ weak_key),
                      certificate :=
                        Some \<lparr>days_until_expiry = Some days,
                              key_size = Some (pc_key_size pc)\<rparr>\<rparr>))"

definition weak_ciphers :: "string list" where
  "weak_ciphers = [''RC4'', ''DES'', ''3DES'', ''MD5'']"

definition test_cipher_suites ::
  "'e tls_env_scheme \<Rightarrow> int \<Rightarrow> category_result \<Rightarrow> category_result" where
  "test_cipher_suites env p results =
     (case negotiated_cipher env p of
        Inl e \<Rightarrow> results
      | Inr None \<Rightarrow> results
      | Inr (Some name) \<Rightarrow>
          (let results1 = results\<lparr>cipher_suites := Some (getd (cipher_suites results) [] @ [name])\<rparr>
           in if list_ex (\<lambda>weak. is_substring weak name) weak_ciphers then
                results1\<lparr>vulnerabilities :=
                  Some (getd (vulnerabilities results1) [] @
                    [\<lparr>vuln_type = Some ''weak_cipher'',
                      vuln_version = None,
                      vuln_severity = Some ''medium'',
                      vuln_description = Some (''Weak cipher suite supported: '' @ name),
                      cve_id = None\<rparr>])\<rparr>
              else results1))"

text \<open>
  \<open>_analyze_tls_service\<close>: its three steps catch their own errors, so the enclosing
  \<open>try\<close> has nothing left to catch.
\<close>

definition analyze_tls_service ::
  "'e tls_env_scheme \<Rightarrow> 'a scanner_scheme \<Rightarrow> int \<Rightarrow> category_result \<Rightarrow> category_result" where
  "analyze_tls_service env sc p results =
     (let r1 = test_tls_versions env p results;
          r2 = get_certificate_info env p r1
      in if \<not> should_scan_quickly sc then test_cipher_suites env p r2 else r2)"

definition check_hsts ::
  "(py_exception + string option) \<Rightarrow> category_result \<Rightarrow> category_result" where
  "check_hsts response results =
     (case response of
        Inl e \<Rightarrow> results
      | Inr hsts_header \<Rightarrow>
          if hsts_header \<noteq> None \<and> hsts_header \<noteq> Some [] then
            results\<lparr>hsts_enabled := Some True\<rparr>
          else
            results\<lparr>hsts_enabled := Some False,
                    vulnerabilities :=
                      Some (getd (vulnerabilities results) [] @
                        [\<lparr>vuln_type = Some ''missing_hsts'',
                          vuln_version = None,
                          vuln_severity = Some ''low'',
                          vuln_description = Some ''HSTS header not configured'',
                          cve_id = None\<rparr>])\<rparr>)"

text \<open>The body of the \<open>try\<close> block of \<open>TLSSecurityScanner.scan\<close>.\<close>

definition tls_scan_body ::
  "'e tls_env_scheme \<Rightarrow> 'a scanner_scheme \<Rightarrow> py_exception + category_result" where
  "tls_scan_body env sc =
     (let tls_services = find_tls_services env sc in
      if tls_services = [] then Inr (handle_service_not_found sc ''TLS/SSL services'')
      else
        (let results =
               fold (\<lambda>svc. analyze_tls_service env sc (svc_port svc)) tls_services
                 tls_initial_results
         in if list_ex (\<lambda>svc. svc_port svc \<in> set [443, 8443]) tls_services then
              (case hsts_check env of
                 Inl e \<Rightarrow> Inl e
               | Inr response \<Rightarrow>
                   Inr (create_result sc ''completed'' (Some (check_hsts response results)) None))
            else Inr (create_result sc ''completed'' (Some results) None)))"

definition tls_scan ::
  "'e tls_env_scheme \<Rightarrow> 'a scanner_scheme \<Rightarrow> py_exception + category_result" where
  "tls_scan env sc0 =
     (let sc = start_scan sc0 in
      case tls_scan_body env sc of
        Inr result \<Rightarrow> Inr result
      | Inl (NetworkTimeoutError m) \<Rightarrow> Inr (handle_timeout sc ''TLS/SSL analysis'')
      | Inl (ScanningNotPossibleError m) \<Rightarrow>
          Inr (handle_network_error sc ''TLS/SSL analysis'' (Some m))
      | Inl e \<Rightarrow> Inr (handle_network_error sc ''TLS/SSL analysis'' (Some (exn_str e))))"

section \<open>Orchestrator\<close>

text \<open>
  \<open>run_comprehensive_scan\<close>. The eight scanner classes are a parameter: \<open>construct c\<close> is
  the constructor of the class scheduled for category \<open>c\<close>, \<open>run_scan c\<close> its \<open>scan\<close>
  method; either may raise. \<open>task\<close> is the optional Celery task, whose \<open>update_state\<close> may
  raise as well (\<open>Some e\<close>). Assignment to \<open>results[category]\<close> is \<open>AList.update\<close>. In the
  entry of a failed category the key \<open>data\<close> holds \<open>None\<close> and is not represented.
\<close>

record 's orchestrator_env =
  construct :: "string \<Rightarrow> string \<Rightarrow> string \<Rightarrow> py_exception + 's"
  run_scan :: "string \<Rightarrow> 's \<Rightarrow> py_exception + category_result"

type_synonym task = "nat \<Rightarrow> nat \<Rightarrow> string \<Rightarrow> py_exception option"

definition scan_categories :: "string list" where
  "scan_categories =
     [''internet_exposure'', ''tls_security'', ''web_security'', ''email_security'',
      ''vulnerabilities'', ''iam_assessment'', ''backup_dr'', ''logging_monitoring'']"

definition failed_entry :: "py_exception \<Rightarrow> category_result" where
  "failed_entry e =
     empty_result\<lparr>status := Some ''failed'',
                  result_note := Some (''Scanning not possible: '' @ exn_str e)\<rparr>"

text \<open>The body of the \<open>try\<close> block of one iteration.\<close>

definition scan_category ::
  "('s, 'x) orchestrator_env_scheme \<Rightarrow> string \<Rightarrow> string \<Rightarrow> task option \<Rightarrow> nat \<Rightarrow> nat \<Rightarrow>
   string \<Rightarrow> py_exception + category_result" where
  "scan_category env tgt stype tsk i total_categories cat =
     (case (case tsk of
              None \<Rightarrow> None
            | Some update_state \<Rightarrow>
                update_state (i + 1) total_categories
                  (''Scanning '' @ str_title (str_replace_char CHR ''_'' CHR '' '' cat) @ ''...''))
      of Some e \<Rightarrow> Inl e
       | None \<Rightarrow>
           (case construct env cat tgt stype of
              Inl e \<Rightarrow> Inl e
            | Inr scanner_obj \<Rightarrow> run_scan env cat scanner_obj))"

fun orchestrate_loop ::
  "('s, 'x) orchestrator_env_scheme \<Rightarrow> string \<Rightarrow> string \<Rightarrow> task option \<Rightarrow> nat \<Rightarrow> nat \<Rightarrow>
   string list \<Rightarrow> scan_results \<Rightarrow> scan_results" where
  "orchestrate_loop env tgt stype tsk total_categories i [] results = results"
| "orchestrate_loop env tgt stype tsk total_categories i (cat # cats) results =
     orchestrate_loop env tgt stype tsk total_categories (i + 1) cats
       (case scan_category env tgt stype tsk i total_categories cat of
          Inr category_res \<Rightarrow> AList.update cat category_res results
        | Inl e \<Rightarrow> AList.update cat (failed_entry e) results)"

definition run_comprehensive_scan ::
  "('s, 'x) orchestrator_env_scheme \<Rightarrow> string \<Rightarrow> string \<Rightarrow> task option \<Rightarrow> scan_results" where
  "run_comprehensive_scan env tgt stype tsk =
     orchestrate_loop env tgt stype tsk (length scan_categories) 0 scan_categories []"

section \<open>Example inputs\<close>

definition example_tls_env :: tls_env where
  "example_tls_env =
     \<lparr>tls_port_open = (\<lambda>p. p = 443),
      handshake = (\<lambda>p v. if v = ''TLSv1.0'' \<or> v = ''TLSv1.2'' then HandshakeOk
                          else HandshakeSSLError),
      peer_certificate = (\<lambda>p. Inr \<lparr>pc_days_until_expiry = 200, pc_key_size = 2048\<rparr>),
      negotiated_cipher = (\<lambda>p. Inr (Some ''ECDHE-RSA-AES256-GCM-SHA384'')),
      hsts_check = Inr (Inr (Some ''max-age=31536000''))\<rparr>"

definition example_scanner :: scanner where
  "example_scanner =
     \<lparr>target = ''example.com'', scan_type = ''full'', timeout = 30, started = False,
      clock_text = ''1.0 seconds''\<rparr>"

definition example_tls_result :: category_result where
  "example_tls_result =
     empty_result
       \<lparr>status := Some ''completed'', scan_duration := Some ''1.0 seconds'',
        tls_versions := Some [''TLSv1.0'', ''TLSv1.2''],
        certificate := Some \<lparr>days_until_expiry = Some 200, key_size = Some 2048\<rparr>,
        cipher_suites := Some [''ECDHE-RSA-AES256-GCM-SHA384''],
        hsts_enabled := Some True,
        vulnerabilities :=
          Some [\<lparr>vuln_type = Some ''weak_tls_version'', vuln_version = Some ''TLSv1.0'',
                 vuln_severity = Some ''medium'',
                 vuln_description = Some ''TLSv1.0 is deprecated and vulnerable to attacks'',
                 cve_id = None\<rparr>]\<rparr>"

definition example_web_result :: category_result where
  "example_web_result = empty_result\<lparr>status := Some ''completed'', security_score := Some 200\<rparr>"

definition example_web_result_80 :: category_result where
  "example_web_result_80 =
     empty_result\<lparr>status := Some ''completed'', security_score := Some 80\<rparr>"

text \<open>A completed entry without findings: every list of findings is empty and the
  three email records are present.\<close>

definition no_findings_result :: category_result where
  "no_findings_result =
     empty_result
       \<lparr>status := Some ''completed'', open_ports := Some [], tls_versions := Some [],
        vulnerabilities := Some [], missing_headers := Some [],
        spf := Some \<lparr>rec_exists = Some True\<rparr>,
        dkim := Some \<lparr>selectors_found = Some [''default'']\<rparr>,
        dmarc := Some \<lparr>rec_exists = Some True\<rparr>,
        admin_interfaces := Some [], exposed_backups := Some [], config_files := Some [],
        waf_detected := Some False, ddos_protection := Some False,
        rate_limiting := Some False, security_tools := Some []\<rparr>"

definition example_no_findings :: scan_results where
  "example_no_findings = map (\<lambda>c. (c, no_findings_result)) scan_categories"

text \<open>The same entry with a full \<open>security_score\<close> and with the three controls of the
  monitoring scorer detected.\<close>

definition clean_result :: category_result where
  "clean_result =
     no_findings_result
       \<lparr>security_score := Some 100,
        waf_detected := Some True, ddos_protection := Some True,
        rate_limiting := Some True, security_tools := Some [''WAF: Generic'']\<rparr>"

definition example_clean :: scan_results where
  "example_clean = map (\<lambda>c. (c, clean_result)) scan_categories"

text \<open>A failed entry, and a scan with five completed categories that lose 20, 15, 15,
  10 and 8 points and three failed ones.\<close>

definition failed_result :: category_result where
  "failed_result =
     empty_result\<lparr>status := Some ''failed'',
       result_note := Some ''Scanning not possible; domain does not exist''\<rparr>"

definition risky_port :: "int \<Rightarrow> port_info" where
  "risky_port p =
     \<lparr>port = Some p, protocol = Some ''tcp'', service = Some ''unknown'',
      state = Some ''open'', port_method = Some ''socket_connect'', banner = None\<rparr>"

definition example_rounding :: scan_results where
  "example_rounding =
     [(''internet_exposure'',
       empty_result\<lparr>status := Some ''completed'',
         open_ports := Some (map risky_port [21, 23, 135, 139, 445])\<rparr>),
      (''tls_security'',
       empty_result\<lparr>status := Some ''completed'', tls_versions := Some [''TLSv1.0''],
         certificate := Some \<lparr>days_until_expiry = Some (- 1), key_size = Some 2048\<rparr>,
         vulnerabilities :=
           Some [\<lparr>vuln_type = Some ''weak_cipher'', vuln_version = None,
                  vuln_severity = Some ''critical'', vuln_description = None,
                  cve_id = None\<rparr>]\<rparr>),
      (''web_security'', empty_result\<lparr>status := Some ''completed''\<rparr>),
      (''email_security'', empty_result\<lparr>status := Some ''completed''\<rparr>),
      (''vulnerabilities'',
       empty_result\<lparr>status := Some ''completed'',
         risk_summary :=
           Some \<lparr>critical_count = Some 1, high_count = Some 0, medium_count = Some 0,
                  low_count = Some 0\<rparr>\<rparr>),
      (''iam_assessment'', failed_result),
      (''backup_dr'', failed_result),
      (''logging_monitoring'', failed_result)]"

text \<open>A scan without an entry for \<open>backup_dr\<close> and with an entry under a name that is
  not a category.\<close>

definition example_extra_key :: scan_results where
  "example_extra_key =
     map (\<lambda>c. (c, clean_result))
       [''internet_exposure'', ''tls_security'', ''web_security'', ''email_security'',
        ''vulnerabilities'', ''iam_assessment'', ''logging_monitoring'', ''extra'']"

text \<open>An orchestrator environment in which every constructor rejects the target.\<close>

definition example_failing_env :: "unit orchestrator_env" where
  "example_failing_env =
     \<lparr>construct = (\<lambda>cat tgt stype. Inl (InvalidTargetError (''Invalid target: '' @ tgt))),
      run_scan = (\<lambda>cat sc. Inr empty_result)\<rparr>"

text \<open>A network on which only port 22 accepts a connection and the native scan fails,
  a scanner that uses the native tool, and a TLS environment in which the HSTS check
  cannot be started.\<close>

definition example_exposure_env :: exposure_env where
  "example_exposure_env =
     \<lparr>connect_ex = (\<lambda>tr p. if p = 22 then ConnectReturned 0 else ConnectReturned 111),
      nmap_open_ports = (\<lambda>ports. Inl (OtherException ''nmap program was not found in path'')),
      os_detection = None,
      grab_banner = (\<lambda>p. None)\<rparr>"

definition example_nmap_scanner :: exposure_scanner where
  "example_nmap_scanner =
     \<lparr>target = ''example.com'', scan_type = ''full'', timeout = 30, started = False,
      clock_text = ''1.0 seconds'', use_nmap = True\<rparr>"

definition example_tls_env_raising :: tls_env where
  "example_tls_env_raising =
     example_tls_env\<lparr>hsts_check := Inl (OtherException ''cannot run the event loop'')\<rparr>"

section \<open>Properties of the scoring engine\<close>

subsection \<open>Auxiliary facts about the scoring loop\<close>

lemma floor_numeral_div: "\<lfloor>numeral a / numeral b :: rat\<rfloor> = numeral a div numeral b"
  using floor_divide_of_int_eq[of "numeral a" "numeral b", where ?'a = rat] by simp

lemma floor_neg_numeral_div:
  "\<lfloor>- (numeral a / numeral b) :: rat\<rfloor> = (- numeral a) div numeral b"
  using floor_divide_of_int_eq[of "- numeral a" "numeral b", where ?'a = rat] by simp

lemma ceiling_numeral_div:
  "\<lceil>numeral a / numeral b :: rat\<rceil> = - ((- numeral a) div numeral b)"
  unfolding ceiling_def using floor_neg_numeral_div[of a b] by simp

lemma bitlen_numeral: "bitlen (numeral n) = bitlen (numeral n div 2) + 1"
  by (subst compute_bitlen) simp

lemma bitlen_one: "bitlen 1 = 1"
  by (subst compute_bitlen) simp

lemmas float_eval =
  float_literal_def round_double_def float_exponent_def round_half_even_def
  bitlen_numeral bitlen_one floor_numeral_div ceiling_numeral_div Let_def

lemma py_int_clamp: "py_int (max 0 (min 100 t)) = max 0 (min 100 (py_int t))"
proof -
  consider "t < 0" | "0 \<le> t" "t \<le> 100" | "100 < t" by linarith
  then show ?thesis
  proof cases
    case 1
    then have c: "\<lceil>t\<rceil> \<le> 0" by (simp add: ceiling_le_iff)
    from 1 have l: "max 0 (min 100 t) = 0" by simp
    from 1 have "py_int t = \<lceil>t\<rceil>" by (simp add: py_int_def)
    with c have "max 0 (min 100 (py_int t)) = 0" by simp
    with l show ?thesis by (simp add: py_int_def)
  next
    case 2
    then have f: "0 \<le> \<lfloor>t\<rfloor>" "\<lfloor>t\<rfloor> \<le> 100" by (simp_all add: le_floor_iff floor_le_iff)
    from 2 have l: "max 0 (min 100 t) = t" by simp
    from 2 have "py_int t = \<lfloor>t\<rfloor>" by (simp add: py_int_def)
    with f have "max 0 (min 100 (py_int t)) = py_int t" by simp
    with l show ?thesis by simp
  next
    case 3
    then have f: "100 \<le> \<lfloor>t\<rfloor>" by (simp add: le_floor_iff)
    from 3 have l: "max 0 (min 100 t) = 100" by simp
    from 3 have "py_int t = \<lfloor>t\<rfloor>" by (simp add: py_int_def)
    with f have "max 0 (min 100 (py_int t)) = 100" by simp
    with l show ?thesis by (simp add: py_int_def)
  qed
qed

lemma score_step_returns:
  assumes "map_of max_category_deduction (fst cw) \<noteq> None"
  shows "\<exists>st'. score_step scan_res cw st = Inr st'"
  using assms by (auto simp: score_step_def Let_def split: option.splits)

lemma score_loop_returns:
  assumes "\<forall>cw\<in>set cws. map_of max_category_deduction (fst cw) \<noteq> None"
  shows "\<exists>st'. score_loop scan_res cws st = Inr st'"
  using assms
proof (induction cws arbitrary: st)
  case Nil
  then show ?case by simp
next
  case (Cons cw cws)
  then obtain st1 where "score_step scan_res cw st = Inr st1"
    using score_step_returns[of cw scan_res st] by auto
  with Cons show ?case by simp
qed

lemma score_loop_weights_returns:
  "\<exists>st. score_loop scan_res category_weights score_init = Inr st"
  by (rule score_loop_returns) (simp add: category_weights_def max_category_deduction_def)

lemma score_loop_append:
  "score_loop scan_res (xs @ ys) st =
     (case score_loop scan_res xs st of Inl e \<Rightarrow> Inl e | Inr st1 \<Rightarrow> score_loop scan_res ys st1)"
  by (induction xs arbitrary: st) (auto split: sum.splits)

lemma score_step_failed:
  assumes "status (get_result scan_res c) \<noteq> Some ''completed''"
  shows "score_step scan_res (c, w) st =
           Inr (st\<lparr>category_scores :=
                     (category_scores st)
                       (c \<mapsto> num_val (py_mul (PyInt w) (float_literal (4 / 5)))),
                   running_total :=
                     py_sub (running_total st)
                       (py_mul (PyInt w) (float_literal (1 / 5)))\<rparr>)"
  using assms by (simp add: score_step_def Let_def)

lemma score_step_other_key:
  assumes "score_step scan_res cw st = Inr st'" "fst cw \<noteq> c"
  shows "category_scores st' c = category_scores st c"
  using assms by (auto simp: score_step_def Let_def split: option.splits if_splits)

lemma score_loop_other_keys:
  assumes "score_loop scan_res cws st = Inr st'" "c \<notin> fst ` set cws"
  shows "category_scores st' c = category_scores st c"
  using assms
proof (induction cws arbitrary: st)
  case Nil
  then show ?case by simp
next
  case (Cons cw cws)
  from Cons.prems(1) obtain st1 where s1: "score_step scan_res cw st = Inr st1"
    and l1: "score_loop scan_res cws st1 = Inr st'"
    by (auto split: sum.splits)
  from Cons.prems(2) have "fst cw \<noteq> c" "c \<notin> fst ` set cws" by auto
  with Cons.IH[OF l1] score_step_other_key[OF s1] show ?case by simp
qed

lemma weights_keys_known:
  "\<forall>cw\<in>set category_weights. map_of max_category_deduction (fst cw) \<noteq> None"
  by (simp add: category_weights_def max_category_deduction_def)

lemma distinct_weights: "distinct (map fst category_weights)"
  by (simp add: category_weights_def)

lemma failed_run:
  assumes mem: "(c, w) \<in> set category_weights"
    and st: "status (get_result scan_res c) \<noteq> Some ''completed''"
  shows "\<exists>pre post st0 st1 st2.
           category_weights = pre @ (c, w) # post \<and>
           score_loop scan_res pre score_init = Inr st0 \<and>
           score_step scan_res (c, w) st0 = Inr st1 \<and>
           running_total st1 =
             py_sub (running_total st0) (py_mul (PyInt w) (float_literal (1 / 5))) \<and>
           category_scores st1 c = Some (num_val (py_mul (PyInt w) (float_literal (4 / 5)))) \<and>
           all_problems st1 = all_problems st0 \<and>
           all_recommendations st1 = all_recommendations st0 \<and>
           score_loop scan_res post st1 = Inr st2 \<and>
           score_loop scan_res category_weights score_init = Inr st2 \<and>
           category_scores st2 c = Some (num_val (py_mul (PyInt w) (float_literal (4 / 5))))"
proof -
  from mem obtain pre post where split: "category_weights = pre @ (c, w) # post"
    by (auto simp: in_set_conv_decomp)
  have known: "\<forall>cw\<in>set pre. map_of max_category_deduction (fst cw) \<noteq> None"
    "\<forall>cw\<in>set post. map_of max_category_deduction (fst cw) \<noteq> None"
    using weights_keys_known unfolding split by auto
  obtain st0 where st0: "score_loop scan_res pre score_init = Inr st0"
    using score_loop_returns[OF known(1)] by blast
  define st1 where "st1 = st0\<lparr>category_scores :=
                     (category_scores st0)
                       (c \<mapsto> num_val (py_mul (PyInt w) (float_literal (4 / 5)))),
                   running_total :=
                     py_sub (running_total st0)
                       (py_mul (PyInt w) (float_literal (1 / 5)))\<rparr>"
  have s1: "score_step scan_res (c, w) st0 = Inr st1"
    unfolding st1_def by (rule score_step_failed[OF st])
  obtain st2 where st2: "score_loop scan_res post st1 = Inr st2"
    using score_loop_returns[OF known(2)] by blast
  have whole: "score_loop scan_res category_weights score_init = Inr st2"
    unfolding split by (simp add: score_loop_append st0 s1 st2)
  from distinct_weights have "c \<notin> fst ` set post"
    unfolding split by auto
  from score_loop_other_keys[OF st2 this]
  have final: "category_scores st2 c = Some (num_val (py_mul (PyInt w) (float_literal (4 / 5))))"
    by (simp add: st1_def)
  have props: "running_total st1 =
             py_sub (running_total st0) (py_mul (PyInt w) (float_literal (1 / 5)))"
    "category_scores st1 c = Some (num_val (py_mul (PyInt w) (float_literal (4 / 5))))"
    "all_problems st1 = all_problems st0"
    "all_recommendations st1 = all_recommendations st0"
    by (simp_all add: st1_def)
  from split st0 s1 props st2 whole final show ?thesis by blast
qed

lemma get_result_missing:
  "map_of scan_res c = None \<Longrightarrow> status (get_result scan_res c) = None"
  by (simp add: get_result_def getd_def empty_result_def)

lemma get_result_present:
  "map_of scan_res c = Some r \<Longrightarrow> get_result scan_res c = r"
  by (simp add: get_result_def getd_def)

lemma completed_count:
  assumes d: "distinct (map fst scan_res)"
    and sub: "set (map fst scan_res) \<subseteq> fst ` set category_weights"
  shows "length (filter (\<lambda>result. status result = Some ''completed'') (map snd scan_res)) =
         length (filter (\<lambda>cw. status (get_result scan_res (fst cw)) = Some ''completed'')
                   category_weights)"
proof -
  let ?comp = "\<lambda>result. status result = Some ''completed''"
  let ?A = "{kr \<in> set scan_res. ?comp (snd kr)}"
  let ?B = "{cw \<in> set category_weights. ?comp (get_result scan_res (fst cw))}"
  have dsr: "distinct scan_res" using d by (rule distinct_map[THEN iffD1, THEN conjunct1])
  have inj: "inj_on fst (set scan_res)" using d by (simp add: distinct_map)
  have injw: "inj_on fst (set category_weights)"
    using distinct_weights by (simp add: distinct_map)
  have dw: "distinct category_weights"
    using distinct_weights by (rule distinct_map[THEN iffD1, THEN conjunct1])
  have lhs: "length (filter ?comp (map snd scan_res)) = card ?A"
  proof -
    have "length (filter ?comp (map snd scan_res)) = length (filter (\<lambda>kr. ?comp (snd kr)) scan_res)"
      by (simp add: filter_map comp_def)
    also have "\<dots> = card (set (filter (\<lambda>kr. ?comp (snd kr)) scan_res))"
      using distinct_card[OF distinct_filter[OF dsr], of "\<lambda>kr. ?comp (snd kr)"] by simp
    finally show ?thesis by simp
  qed
  have rhs: "length (filter (\<lambda>cw. ?comp (get_result scan_res (fst cw))) category_weights) = card ?B"
  proof -
    have "length (filter (\<lambda>cw. ?comp (get_result scan_res (fst cw))) category_weights)
          = card (set (filter (\<lambda>cw. ?comp (get_result scan_res (fst cw))) category_weights))"
      using distinct_card[OF distinct_filter[OF dw],
          of "\<lambda>cw. ?comp (get_result scan_res (fst cw))"] by simp
    then show ?thesis by simp
  qed
  have img: "fst ` ?A = fst ` ?B"
  proof (rule set_eqI, rule iffI)
    fix k assume "k \<in> fst ` ?A"
    then obtain r where kr: "(k, r) \<in> set scan_res" "?comp r" by auto
    with d have "map_of scan_res k = Some r" by simp
    then have g: "get_result scan_res k = r" by (simp add: get_result_def getd_def)
    from kr sub obtain w where "(k, w) \<in> set category_weights" by force
    with g kr show "k \<in> fst ` ?B" by force
  next
    fix k assume "k \<in> fst ` ?B"
    then obtain w where kw: "(k, w) \<in> set category_weights"
      "?comp (get_result scan_res k)" by auto
    then have "map_of scan_res k \<noteq> None"
      using get_result_missing[of scan_res k] by auto
    then obtain r where r: "map_of scan_res k = Some r" by auto
    then have "(k, r) \<in> set scan_res" by (rule map_of_SomeD)
    moreover from r kw have "?comp r" by (simp add: get_result_def getd_def)
    ultimately show "k \<in> fst ` ?A" by force
  qed
  have "card ?A = card (fst ` ?A)"
    by (rule card_image[symmetric]) (rule inj_on_subset[OF inj], auto)
  also have "\<dots> = card (fst ` ?B)" by (simp only: img)
  also have "\<dots> = card ?B"
    by (rule card_image) (rule inj_on_subset[OF injw], auto)
  finally show ?thesis using lhs rhs by simp
qed

lemma failed_count:
  assumes d: "distinct (map fst scan_res)"
    and sub: "set (map fst scan_res) \<subseteq> fst ` set category_weights"
  shows "int (length category_weights) -
         int (length (filter (\<lambda>result. status result = Some ''completed'') (map snd scan_res))) =
         int (length (filter (\<lambda>cw. status (get_result scan_res (fst cw)) \<noteq> Some ''completed'')
                   category_weights))"
proof -
  have "length category_weights =
        length (filter (\<lambda>cw. status (get_result scan_res (fst cw)) = Some ''completed'') category_weights) +
        length (filter (\<lambda>cw. \<not> status (get_result scan_res (fst cw)) = Some ''completed'') category_weights)"
    by (rule sum_length_filter_compl[symmetric])
  with completed_count[OF d sub] show ?thesis by simp
qed

lemma failed_products:
  "num_val (py_mul (PyInt 20) (float_literal (4 / 5))) = 16"
  "num_val (py_mul (PyInt 15) (float_literal (4 / 5))) = 12"
  "num_val (py_mul (PyInt 10) (float_literal (4 / 5))) = 8"
  "num_val (py_mul (PyInt 25) (float_literal (4 / 5))) = 20"
  "num_val (py_mul (PyInt 8) (float_literal (4 / 5))) = 3602879701896397 / 562949953421312"
  "num_val (py_mul (PyInt 4) (float_literal (4 / 5))) = 3602879701896397 / 1125899906842624"
  "num_val (py_mul (PyInt 3) (float_literal (4 / 5))) = 1351079888211149 / 562949953421312"
  "num_val (py_mul (PyInt 20) (float_literal (1 / 5))) = 4"
  "num_val (py_mul (PyInt 15) (float_literal (1 / 5))) = 3"
  "num_val (py_mul (PyInt 10) (float_literal (1 / 5))) = 2"
  "num_val (py_mul (PyInt 25) (float_literal (1 / 5))) = 5"
  "num_val (py_mul (PyInt 8) (float_literal (1 / 5))) = 3602879701896397 / 2251799813685248"
  "num_val (py_mul (PyInt 4) (float_literal (1 / 5))) = 3602879701896397 / 4503599627370496"
  "num_val (py_mul (PyInt 3) (float_literal (1 / 5))) = 1351079888211149 / 2251799813685248"
  by (simp_all add: float_eval)

lemma failed_products_close:
  assumes "(c, w) \<in> set category_weights"
  shows "\<bar>num_val (py_mul (PyInt w) (float_literal (4 / 5))) - of_int w * (4 / 5)\<bar> < 1 / 2 ^ 50 \<and>
         \<bar>num_val (py_mul (PyInt w) (float_literal (1 / 5))) - of_int w * (1 / 5)\<bar> < 1 / 2 ^ 50"
proof -
  from assms have "w = 20 \<or> w = 15 \<or> w = 10 \<or> w = 25 \<or> w = 8 \<or> w = 4 \<or> w = 3"
    by (auto simp: category_weights_def)
  then show ?thesis
    by (elim disjE) (simp_all only: failed_products, simp_all)
qed

lemma failed_loop_total:
  assumes "\<forall>cw\<in>set cws. status (get_result scan_res (fst cw)) \<noteq> Some ''completed''"
  shows "\<exists>st'. score_loop scan_res cws st = Inr st' \<and>
               running_total st' =
                 fold (\<lambda>cw t. py_sub t (py_mul (PyInt (snd cw)) (float_literal (1 / 5)))) cws
                   (running_total st)"
  using assms
proof (induction cws arbitrary: st)
  case Nil
  then show ?case by simp
next
  case (Cons cw cws)
  obtain c w where cw: "cw = (c, w)" by (cases cw)
  from Cons.prems cw have "status (get_result scan_res c) \<noteq> Some ''completed''" by simp
  from score_step_failed[OF this, of w st] cw Cons.IH[of "st\<lparr>category_scores :=
                     (category_scores st)
                       (c \<mapsto> num_val (py_mul (PyInt w) (float_literal (4 / 5)))),
                   running_total :=
                     py_sub (running_total st)
                       (py_mul (PyInt w) (float_literal (1 / 5)))\<rparr>"] Cons.prems
  show ?case by simp
qed

lemma all_failed_total:
  "fold (\<lambda>cw t. py_sub t (py_mul (PyInt (snd cw)) (float_literal (1 / 5)))) category_weights
     (PyInt 100) = PyFloat (5629499534213121 / 70368744177664)"
  by (simp add: category_weights_def float_eval)

lemma all_failed_score: "py_int (max 0 (min 100 (5629499534213121 / 70368744177664))) = 80"
  by (simp add: py_int_def floor_numeral_div)

lemma calculate_score_summary:
  "map_sum id (categories_failed \<circ> snd \<circ> snd \<circ> snd) (calculate_score scan_res) =
     Inr (8 - int (length (filter (\<lambda>result. status result = Some ''completed'')
                             (map snd scan_res))))"
proof -
  obtain st where "score_loop scan_res category_weights score_init = Inr st"
    using score_loop_weights_returns by blast
  then show ?thesis
    by (simp add: calculate_score_def generate_summary_def Let_def category_weights_def)
qed

subsection \<open>The final score\<close>

text \<open>
  Claim C1. For every \<open>scan_results\<close>, \<open>calculate_score\<close> returns (no \<open>KeyError\<close> is
  raised), and the score it returns is an integer between 0 and 100: the running total
  of the loop, clamped to \<open>[0, 100]\<close> and truncated. The code truncates first and clamps
  then; both orders give the same integer.
\<close>

theorem calculate_score_in_range:
  "\<exists>st score problems recs summ.
     score_loop scan_res category_weights score_init = Inr st \<and>
     calculate_score scan_res = Inr (score, problems, recs, summ) \<and>
     0 \<le> score \<and> score \<le> 100 \<and>
     score = max 0 (min 100 (py_int (total_score st))) \<and>
     score = py_int (max 0 (min 100 (total_score st)))"
proof -
  obtain st where st: "score_loop scan_res category_weights score_init = Inr st"
    using score_loop_weights_returns by blast
  then show ?thesis
    by (simp add: calculate_score_def Let_def py_int_clamp)
qed

theorem calculate_score_in_range_witness:
  "\<exists>problems recs summ. calculate_score [] = Inr (80, problems, recs, summ)"
proof -
  obtain st score problems recs summ where
    loop: "score_loop [] category_weights score_init = Inr st" and
    res: "calculate_score [] = Inr (score, problems, recs, summ)" and
    sc: "score = py_int (max 0 (min 100 (total_score st)))"
    using calculate_score_in_range[of "[]"] by blast
  have "\<forall>cw\<in>set category_weights. status (get_result [] (fst cw)) \<noteq> Some ''completed''"
    by (simp add: get_result_missing)
  from failed_loop_total[OF this, of score_init] loop
  have "running_total st = PyFloat (5629499534213121 / 70368744177664)"
    by (simp add: score_init_def all_failed_total)
  then have "total_score st = 5629499534213121 / 70368744177664"
    by (simp add: total_score_def)
  with sc have "score = 80" by (simp only: all_failed_score)
  with res show ?thesis by blast
qed

subsection \<open>Failed categories\<close>

text \<open>
  Claim C2, as amended. Let \<open>c\<close> be one of the eight weighted categories, with weight
  \<open>w\<close>, whose entry \<open>r\<close> in \<open>scan_results\<close> has a status other than \<open>completed\<close>. The
  loop of \<open>calculate_score\<close> reaches the iteration of \<open>c\<close> in some state \<open>st0\<close>; that
  iteration sets the category score of \<open>c\<close> to the double-precision product
  \<open>w * 0.8\<close>, subtracts the double-precision product \<open>w * 0.2\<close> from the running total
  in double arithmetic, and adds no problem and no recommendation; the category score
  of \<open>c\<close> is still that product when the loop ends. Each product is within \<open>2^-50\<close> of
  the exact value \<open>w \<times> 0.8\<close> or \<open>w \<times> 0.2\<close>. Nothing in the conclusion depends on \<open>r\<close>:
  neither the note nor any other field of the entry has an influence. The values are
  not exact, as the claim has it: with completed categories that deduct 68 and three
  failed categories of weights 8, 4 and 3, the running total ends at
  28.999999999999996 and the final score is 28, where exact deductions give 29.
\<close>

theorem failed_category_contribution:
  assumes "(c, w) \<in> set category_weights"
    and "map_of scan_res c = Some r"
    and "status r \<noteq> Some ''completed''"
  shows "(\<exists>pre post st0 st1 st2.
            category_weights = pre @ (c, w) # post \<and>
            score_loop scan_res pre score_init = Inr st0 \<and>
            score_step scan_res (c, w) st0 = Inr st1 \<and>
            running_total st1 =
              py_sub (running_total st0) (py_mul (PyInt w) (float_literal (1 / 5))) \<and>
            category_scores st1 c =
              Some (num_val (py_mul (PyInt w) (float_literal (4 / 5)))) \<and>
            all_problems st1 = all_problems st0 \<and>
            all_recommendations st1 = all_recommendations st0 \<and>
            score_loop scan_res post st1 = Inr st2 \<and>
            score_loop scan_res category_weights score_init = Inr st2 \<and>
            category_scores st2 c =
              Some (num_val (py_mul (PyInt w) (float_literal (4 / 5))))) \<and>
         \<bar>num_val (py_mul (PyInt w) (float_literal (4 / 5))) - of_int w * (4 / 5)\<bar>
           < 1 / 2 ^ 50 \<and>
         \<bar>num_val (py_mul (PyInt w) (float_literal (1 / 5))) - of_int w * (1 / 5)\<bar>
           < 1 / 2 ^ 50"
proof -
  from assms(2,3) have "status (get_result scan_res c) \<noteq> Some ''completed''"
    by (simp add: get_result_present)
  with assms(1) have "\<exists>pre post st0 st1 st2.
            category_weights = pre @ (c, w) # post \<and>
            score_loop scan_res pre score_init = Inr st0 \<and>
            score_step scan_res (c, w) st0 = Inr st1 \<and>
            running_total st1 =
              py_sub (running_total st0) (py_mul (PyInt w) (float_literal (1 / 5))) \<and>
            category_scores st1 c =
              Some (num_val (py_mul (PyInt w) (float_literal (4 / 5)))) \<and>
            all_problems st1 = all_problems st0 \<and>
            all_recommendations st1 = all_recommendations st0 \<and>
            score_loop scan_res post st1 = Inr st2 \<and>
            score_loop scan_res category_weights score_init = Inr st2 \<and>
            category_scores st2 c =
              Some (num_val (py_mul (PyInt w) (float_literal (4 / 5))))"
    by (rule failed_run)
  with failed_products_close[OF assms(1)] show ?thesis by blast
qed

theorem failed_category_contribution_witness:
  "\<exists>st2. score_loop
            [(''email_security'',
              empty_result\<lparr>status := Some ''failed'',
                result_note := Some ''Scanning not possible; domain does not exist''\<rparr>)]
            category_weights score_init = Inr st2 \<and>
         category_scores st2 ''email_security'' = Some 8"
proof -
  let ?r = "empty_result\<lparr>status := Some ''failed'',
                result_note := Some ''Scanning not possible; domain does not exist''\<rparr>"
  have h1: "(''email_security'', 10) \<in> set category_weights"
    by (simp add: category_weights_def)
  have h2: "map_of [(''email_security'', ?r)] ''email_security'' = Some ?r" by simp
  have h3: "status ?r \<noteq> Some ''completed''" by simp
  from failed_category_contribution[OF h1 h2 h3] show ?thesis
    by (auto simp: failed_products)
qed

theorem failed_category_contribution_counterexample:
  "map_sum id running_total
     (score_loop example_rounding (take 5 category_weights) score_init) = Inr (PyInt 32) \<and>
   map_sum id running_total
     (score_loop example_rounding category_weights score_init) =
     Inr (PyFloat (8162774324609023 / 281474976710656)) \<and>
   (8162774324609023 / 281474976710656 :: rat) \<noteq> 32 - 8 * (1 / 5) - 4 * (1 / 5) - 3 * (1 / 5) \<and>
   map_sum id fst (calculate_score example_rounding) = Inr 28"
  by (simp add: calculate_score_def example_rounding_def failed_result_def risky_port_def
      empty_result_def category_weights_def max_category_deduction_def
      score_init_def score_step_def get_result_def getd_def score_category_def
      score_internet_exposure_def exposure_port_step_def port_in_def high_risk_ports_def
      score_tls_security_def tls_version_check_def tls_certificate_check_def
      tls_vuln_step_def score_web_security_def score_email_security_def
      email_record_checks_def score_vulnerabilities_def cve_deductions_def
      truthy_def py_int_def total_score_def float_eval)

subsection \<open>Categories without an entry\<close>

text \<open>
  Claim C10, as amended. Let \<open>c\<close> be one of the eight weighted categories, with weight
  \<open>w\<close>, that has no entry in \<open>scan_results\<close>. It is scored as a failed category is: its
  iteration sets the category score to the double-precision product \<open>w * 0.8\<close> and
  subtracts the double-precision product \<open>w * 0.2\<close> from the running total (each
  within \<open>2^-50\<close> of the exact value). \<open>calculate_score\<close> returns a report; its summary
  counts eight categories and has \<open>categories_failed = 8 - completed entries\<close>. Provided
  the keys of \<open>scan_results\<close> are category names (distinct, as the keys of a dictionary
  are, and among the eight weighted categories), \<open>categories_failed\<close> is the number of
  weighted categories whose entry is missing or not completed, so \<open>c\<close> is counted. The
  proviso is needed: every completed entry is subtracted, whatever its key, so with
  \<open>backup_dr\<close> missing and a completed entry under another name
  \<open>categories_failed\<close> is 0.
\<close>

theorem missing_category_scored_as_failed:
  assumes "(c, w) \<in> set category_weights"
    and "map_of scan_res c = None"
  shows "(\<exists>pre post st0 st1 st2.
            category_weights = pre @ (c, w) # post \<and>
            score_loop scan_res pre score_init = Inr st0 \<and>
            score_step scan_res (c, w) st0 = Inr st1 \<and>
            running_total st1 =
              py_sub (running_total st0) (py_mul (PyInt w) (float_literal (1 / 5))) \<and>
            category_scores st1 c =
              Some (num_val (py_mul (PyInt w) (float_literal (4 / 5)))) \<and>
            all_problems st1 = all_problems st0 \<and>
            all_recommendations st1 = all_recommendations st0 \<and>
            score_loop scan_res post st1 = Inr st2 \<and>
            score_loop scan_res category_weights score_init = Inr st2 \<and>
            category_scores st2 c =
              Some (num_val (py_mul (PyInt w) (float_literal (4 / 5))))) \<and>
         \<bar>num_val (py_mul (PyInt w) (float_literal (4 / 5))) - of_int w * (4 / 5)\<bar>
           < 1 / 2 ^ 50 \<and>
         \<bar>num_val (py_mul (PyInt w) (float_literal (1 / 5))) - of_int w * (1 / 5)\<bar>
           < 1 / 2 ^ 50 \<and>
         (\<exists>score problems recs summ.
            calculate_score scan_res = Inr (score, problems, recs, summ) \<and>
            categories_scanned summ = 8 \<and>
            categories_failed summ =
              8 - int (length (filter (\<lambda>result. status result = Some ''completed'')
                                 (map snd scan_res))) \<and>
            (distinct (map fst scan_res) \<and>
             set (map fst scan_res) \<subseteq> fst ` set category_weights \<longrightarrow>
               categories_failed summ =
                 int (length (filter (\<lambda>cw. status (get_result scan_res (fst cw)) \<noteq>
                                            Some ''completed'') category_weights)) \<and>
               1 \<le> categories_failed summ))"
proof (intro conjI)
  from assms(2) have nc: "status (get_result scan_res c) \<noteq> Some ''completed''"
    by (simp add: get_result_missing)
  from failed_run[OF assms(1) nc]
  show "\<exists>pre post st0 st1 st2.
            category_weights = pre @ (c, w) # post \<and>
            score_loop scan_res pre score_init = Inr st0 \<and>
            score_step scan_res (c, w) st0 = Inr st1 \<and>
            running_total st1 =
              py_sub (running_total st0) (py_mul (PyInt w) (float_literal (1 / 5))) \<and>
            category_scores st1 c =
              Some (num_val (py_mul (PyInt w) (float_literal (4 / 5)))) \<and>
            all_problems st1 = all_problems st0 \<and>
            all_recommendations st1 = all_recommendations st0 \<and>
            score_loop scan_res post st1 = Inr st2 \<and>
            score_loop scan_res category_weights score_init = Inr st2 \<and>
            category_scores st2 c =
              Some (num_val (py_mul (PyInt w) (float_literal (4 / 5))))" .
  from failed_products_close[OF assms(1)]
  show "\<bar>num_val (py_mul (PyInt w) (float_literal (4 / 5))) - of_int w * (4 / 5)\<bar>
           < 1 / 2 ^ 50"
    and "\<bar>num_val (py_mul (PyInt w) (float_literal (1 / 5))) - of_int w * (1 / 5)\<bar>
           < 1 / 2 ^ 50"
    by blast+
  obtain st where st: "score_loop scan_res category_weights score_init = Inr st"
    using score_loop_weights_returns by blast
  define summ where "summ = generate_summary scan_res (category_scores st)
                               (prioritize_problems (all_problems st))"
  have len: "length category_weights = 8" by (simp add: category_weights_def)
  have cs: "calculate_score scan_res =
        Inr (max 0 (min 100 (py_int (total_score st))), prioritize_problems (all_problems st),
             consolidate_recommendations (all_recommendations st), summ)"
    by (simp add: calculate_score_def st Let_def summ_def)
  have scanned: "categories_scanned summ = 8"
    by (simp add: summ_def generate_summary_def Let_def len)
  have failed: "categories_failed summ =
      8 - int (length (filter (\<lambda>result. status result = Some ''completed'') (map snd scan_res)))"
    by (simp add: summ_def generate_summary_def Let_def len)
  have cond: "distinct (map fst scan_res) \<and>
             set (map fst scan_res) \<subseteq> fst ` set category_weights \<longrightarrow>
               categories_failed summ =
                 int (length (filter (\<lambda>cw. status (get_result scan_res (fst cw)) \<noteq>
                                            Some ''completed'') category_weights)) \<and>
               1 \<le> categories_failed summ"
  proof (intro impI, elim conjE)
    assume d: "distinct (map fst scan_res)"
      and sub: "set (map fst scan_res) \<subseteq> fst ` set category_weights"
    from failed_count[OF d sub] failed len
    have eq: "categories_failed summ =
                 int (length (filter (\<lambda>cw. status (get_result scan_res (fst cw)) \<noteq>
                                            Some ''completed'') category_weights))"
      by simp
    have "(c, w) \<in> set (filter (\<lambda>cw. status (get_result scan_res (fst cw)) \<noteq>
                                            Some ''completed'') category_weights)"
      using assms(1) nc by simp
    then have "0 < length (filter (\<lambda>cw. status (get_result scan_res (fst cw)) \<noteq>
                                            Some ''completed'') category_weights)"
      by (rule length_pos_if_in_set)
    then have "1 \<le> int (length (filter (\<lambda>cw. status (get_result scan_res (fst cw)) \<noteq>
                                            Some ''completed'') category_weights))"
      by linarith
    with eq show "categories_failed summ =
                 int (length (filter (\<lambda>cw. status (get_result scan_res (fst cw)) \<noteq>
                                            Some ''completed'') category_weights)) \<and>
               1 \<le> categories_failed summ"
      by simp
  qed
  from cs scanned failed cond
  show "\<exists>score problems recs summ.
            calculate_score scan_res = Inr (score, problems, recs, summ) \<and>
            categories_scanned summ = 8 \<and>
            categories_failed summ =
              8 - int (length (filter (\<lambda>result. status result = Some ''completed'')
                                 (map snd scan_res))) \<and>
            (distinct (map fst scan_res) \<and>
             set (map fst scan_res) \<subseteq> fst ` set category_weights \<longrightarrow>
               categories_failed summ =
                 int (length (filter (\<lambda>cw. status (get_result scan_res (fst cw)) \<noteq>
                                            Some ''completed'') category_weights)) \<and>
               1 \<le> categories_failed summ)"
    by blast
qed

theorem missing_category_scored_as_failed_witness:
  "(\<exists>st2. score_loop [] category_weights score_init = Inr st2 \<and>
          category_scores st2 ''backup_dr'' = Some (3602879701896397 / 1125899906842624)) \<and>
   (\<exists>score problems recs summ.
      calculate_score [] = Inr (score, problems, recs, summ) \<and>
      categories_failed summ = 8 \<and> 1 \<le> categories_failed summ)"
proof -
  have h1: "(''backup_dr'', 4) \<in> set category_weights"
    by (simp add: category_weights_def)
  have h2: "map_of ([] :: scan_results) ''backup_dr'' = None" by simp
  from missing_category_scored_as_failed[OF h1 h2] show ?thesis
    by (auto simp: failed_products)
qed

theorem missing_category_scored_as_failed_counterexample:
  "map_of example_extra_key ''backup_dr'' = None \<and>
   map_sum id (categories_failed \<circ> snd \<circ> snd \<circ> snd) (calculate_score example_extra_key) =
     Inr 0"
  by (simp add: calculate_score_summary)
     (simp add: example_extra_key_def clean_result_def no_findings_result_def
        empty_result_def)

subsection \<open>Order of the problem list\<close>

text \<open>
  Claim C8. For every list of problems, the list \<open>_prioritize_problems\<close> returns is sorted
  by the key (severity rank, category name), where the rank is 0 for \<open>critical\<close>, 1 for
  \<open>high\<close>, 2 for \<open>medium\<close> and 3 for \<open>low\<close> and for any other severity, and equal ranks
  are ordered by category name. The result is a permutation of the input that keeps
  problems of equal key in their input order (so it is determined by the input), and
  sorting it again leaves it unchanged.
\<close>

theorem prioritize_problems_sorted:
  "sorted (map problem_key (prioritize_problems ps)) \<and>
   mset (prioritize_problems ps) = mset ps \<and>
   (\<forall>k. filter (\<lambda>p. problem_key p = k) (prioritize_problems ps) =
        filter (\<lambda>p. problem_key p = k) ps) \<and>
   prioritize_problems (prioritize_problems ps) = prioritize_problems ps \<and>
   (\<forall>p q. problem_key p \<le> problem_key q \<longleftrightarrow>
      fst (problem_key p) < fst (problem_key q) \<or>
      fst (problem_key p) = fst (problem_key q) \<and> category p \<le> category q) \<and>
   (\<forall>p. fst (problem_key p) =
      (if severity p = ''critical'' then 0 else if severity p = ''high'' then 1
       else if severity p = ''medium'' then 2 else 3))"
proof (intro conjI allI)
  show "sorted (map problem_key (prioritize_problems ps))"
    by (simp add: prioritize_problems_def)
  show "mset (prioritize_problems ps) = mset ps"
    by (simp add: prioritize_problems_def)
  show "filter (\<lambda>p. problem_key p = k) (prioritize_problems ps) =
        filter (\<lambda>p. problem_key p = k) ps" for k
    unfolding prioritize_problems_def by (rule sort_key_stable)
  show "prioritize_problems (prioritize_problems ps) = prioritize_problems ps"
    unfolding prioritize_problems_def by (rule sort_key_id_if_sorted) simp
  show "problem_key p \<le> problem_key q \<longleftrightarrow>
      fst (problem_key p) < fst (problem_key q) \<or>
      fst (problem_key p) = fst (problem_key q) \<and> category p \<le> category q" for p q
    by (auto simp: problem_key_def less_eq_prod_def)
  show "fst (problem_key p) =
      (if severity p = ''critical'' then 0 else if severity p = ''high'' then 1
       else if severity p = ''medium'' then 2 else 3)" for p
    by (simp add: problem_key_def severity_order_def getd_def)
qed

theorem prioritize_problems_sorted_witness:
  "prioritize_problems
     [\<lparr>category = ''web_security'', issue = ''x'', severity = ''low'',
        description = ''d'', impact = ''i''\<rparr>,
      \<lparr>category = ''tls_security'', issue = ''y'', severity = ''critical'',
        description = ''d'', impact = ''i''\<rparr>] =
     [\<lparr>category = ''tls_security'', issue = ''y'', severity = ''critical'',
        description = ''d'', impact = ''i''\<rparr>,
      \<lparr>category = ''web_security'', issue = ''x'', severity = ''low'',
        description = ''d'', impact = ''i''\<rparr>] \<and>
   prioritize_problems
     [\<lparr>category = ''tls_security'', issue = ''y'', severity = ''critical'',
        description = ''d'', impact = ''i''\<rparr>,
      \<lparr>category = ''web_security'', issue = ''x'', severity = ''low'',
        description = ''d'', impact = ''i''\<rparr>] =
     [\<lparr>category = ''tls_security'', issue = ''y'', severity = ''critical'',
        description = ''d'', impact = ''i''\<rparr>,
      \<lparr>category = ''web_security'', issue = ''x'', severity = ''low'',
        description = ''d'', impact = ''i''\<rparr>]"
proof -
  let ?a = "\<lparr>category = ''web_security'', issue = ''x'', severity = ''low'',
        description = ''d'', impact = ''i''\<rparr>"
  let ?b = "\<lparr>category = ''tls_security'', issue = ''y'', severity = ''critical'',
        description = ''d'', impact = ''i''\<rparr>"
  have first: "prioritize_problems [?a, ?b] = [?b, ?a]"
    by (simp add: prioritize_problems_def problem_key_def severity_order_def getd_def
        less_eq_prod_def)
  from prioritize_problems_sorted[of "[?a, ?b]"]
  have "prioritize_problems (prioritize_problems [?a, ?b]) = prioritize_problems [?a, ?b]"
    by blast
  with first show ?thesis by simp
qed

subsection \<open>Bounds of a category score\<close>

lemma fold_deductions_mono:
  assumes "\<And>x acc. snd acc \<le> snd (f x acc)"
  shows "snd (acc :: 'b \<times> int) \<le> snd (fold f xs acc)"
proof (induction xs arbitrary: acc)
  case Nil
  then show ?case by simp
next
  case (Cons x xs)
  have "snd acc \<le> snd (f x acc)" by (rule assms)
  also have "\<dots> \<le> snd (fold f xs (f x acc))" by (rule Cons.IH)
  finally show ?case by simp
qed

lemma exposure_port_step_mono: "snd acc \<le> snd (exposure_port_step ps x acc)"
  by (simp add: exposure_port_step_def Let_def)

lemma tls_vuln_step_mono: "snd acc \<le> snd (tls_vuln_step v acc)"
  by (simp add: tls_vuln_step_def Let_def)

lemma tls_certificate_check_mono: "snd acc \<le> snd (tls_certificate_check c acc)"
  by (simp add: tls_certificate_check_def Let_def split: option.splits)

lemma tls_version_check_nonneg: "0 \<le> snd (tls_version_check vs)"
  by (simp add: tls_version_check_def)

lemma email_record_checks_nonneg: "0 \<le> snd (email_record_checks r)"
  by (simp add: email_record_checks_def Let_def)

lemma email_vuln_step_mono: "snd acc \<le> snd (email_vuln_step v acc)"
  by (simp add: email_vuln_step_def Let_def)

lemma iam_interface_step_mono: "snd acc \<le> snd (iam_interface_step i acc)"
  by (simp add: iam_interface_step_def Let_def)

lemma iam_vuln_step_mono: "snd acc \<le> snd (iam_vuln_step v acc)"
  by (simp add: iam_vuln_step_def Let_def)

lemma backup_file_step_mono: "snd acc \<le> snd (backup_file_step b acc)"
  by (simp add: backup_file_step_def)

lemma backup_config_step_mono: "snd acc \<le> snd (backup_config_step b acc)"
  by (simp add: backup_config_step_def)

lemma backup_vuln_step_mono: "snd acc \<le> snd (backup_vuln_step v acc)"
  by (simp add: backup_vuln_step_def Let_def)

lemma clamp_bounds: "0 \<le> d \<Longrightarrow> 0 \<le> w \<Longrightarrow> 0 \<le> max 0 (w - d) \<and> max 0 (w - d) \<le> (w::int)"
  by simp

lemma score_internet_exposure_bounds:
  "0 \<le> w \<Longrightarrow> 0 \<le> fst (score_internet_exposure r w) \<and> fst (score_internet_exposure r w) \<le> w"
  using fold_deductions_mono[of "exposure_port_step (getd (open_ports r) [])" "([], 0)"
      "getd (open_ports r) []", OF exposure_port_step_mono]
  by (simp add: score_internet_exposure_def Let_def)

lemma score_tls_security_bounds:
  "0 \<le> w \<Longrightarrow> 0 \<le> fst (score_tls_security r w) \<and> fst (score_tls_security r w) \<le> w"
proof -
  assume w: "0 \<le> w"
  let ?a = "tls_certificate_check (certificate r) (tls_version_check (getd (tls_versions r) []))"
  have "0 \<le> snd ?a"
    using tls_version_check_nonneg tls_certificate_check_mono by (rule order_trans)
  also have "\<dots> \<le> snd (fold tls_vuln_step (getd (vulnerabilities r) []) ?a)"
    by (rule fold_deductions_mono) (rule tls_vuln_step_mono)
  finally show ?thesis using w by (simp add: score_tls_security_def Let_def)
qed

lemma py_int_scale_bounds:
  assumes "0 \<le> s" "s \<le> 100" "0 \<le> w"
  shows "0 \<le> py_int (of_int w * (s / 100)) \<and> py_int (of_int w * (s / 100)) \<le> w"
proof -
  have nn: "0 \<le> of_int w * (s / 100)" using assms by simp
  have "s / 100 \<le> 1" using assms by simp
  then have "of_int w * (s / 100) \<le> of_int w * 1"
    using assms(3) by (intro mult_left_mono) simp_all
  then have le: "of_int w * (s / 100) \<le> of_int w" by simp
  from nn have "py_int (of_int w * (s / 100)) = \<lfloor>of_int w * (s / 100)\<rfloor>"
    by (simp add: py_int_def)
  moreover from nn have "0 \<le> \<lfloor>of_int w * (s / 100)\<rfloor>" by simp
  moreover from le have "\<lfloor>of_int w * (s / 100)\<rfloor> \<le> w" by (simp add: floor_le_iff)
  ultimately show ?thesis by simp
qed

lemma score_web_security_bounds:
  assumes "0 \<le> getd (security_score r) 0" "getd (security_score r) 0 \<le> 100" "0 \<le> w"
  shows "0 \<le> fst (score_web_security r w) \<and> fst (score_web_security r w) \<le> w"
  using py_int_scale_bounds[OF assms] by (simp add: score_web_security_def Let_def)

lemma score_email_security_bounds:
  "0 \<le> w \<Longrightarrow> 0 \<le> fst (score_email_security r w) \<and> fst (score_email_security r w) \<le> w"
proof -
  assume w: "0 \<le> w"
  have "0 \<le> snd (email_record_checks r)" by (rule email_record_checks_nonneg)
  also have "\<dots> \<le> snd (fold email_vuln_step (getd (vulnerabilities r) []) (email_record_checks r))"
    by (rule fold_deductions_mono) (rule email_vuln_step_mono)
  finally show ?thesis using w by (simp add: score_email_security_def Let_def)
qed

lemma cve_deductions_nonneg:
  assumes "0 \<le> getd (critical_count rs) 0" "0 \<le> getd (high_count rs) 0"
    "0 \<le> getd (medium_count rs) 0" "0 \<le> getd (low_count rs) 0"
  shows "0 \<le> cve_deductions rs"
  using assms by (simp add: cve_deductions_def)

lemma score_vulnerabilities_bounds:
  assumes "0 \<le> cve_deductions (getd (risk_summary r) no_risk_counts)" "0 \<le> w"
  shows "0 \<le> fst (score_vulnerabilities r w) \<and> fst (score_vulnerabilities r w) \<le> w"
proof -
  from assms(1) have "0 \<le> py_int (cve_deductions (getd (risk_summary r) no_risk_counts))"
    by (simp add: py_int_def)
  with assms(2) show ?thesis by (simp add: score_vulnerabilities_def Let_def)
qed

lemma score_iam_assessment_bounds:
  "0 \<le> w \<Longrightarrow> 0 \<le> fst (score_iam_assessment r w) \<and> fst (score_iam_assessment r w) \<le> w"
proof -
  assume w: "0 \<le> w"
  let ?a = "fold iam_interface_step (getd (admin_interfaces r) []) ([], 0)"
  have "0 \<le> snd ?a"
    using fold_deductions_mono[of iam_interface_step "([], 0)", OF iam_interface_step_mono]
    by simp
  also have "\<dots> \<le> snd (fold iam_vuln_step (getd (vulnerabilities r) []) ?a)"
    by (rule fold_deductions_mono) (rule iam_vuln_step_mono)
  finally show ?thesis using w by (simp add: score_iam_assessment_def Let_def)
qed

lemma score_backup_dr_bounds:
  "0 \<le> w \<Longrightarrow> 0 \<le> fst (score_backup_dr r w) \<and> fst (score_backup_dr r w) \<le> w"
proof -
  assume w: "0 \<le> w"
  let ?a = "fold backup_file_step (getd (exposed_backups r) []) ([], 0)"
  let ?b = "fold backup_config_step (getd (config_files r) []) ?a"
  have "0 \<le> snd ?a"
    using fold_deductions_mono[of backup_file_step "([], 0)", OF backup_file_step_mono]
    by simp
  also have "\<dots> \<le> snd ?b"
    by (rule fold_deductions_mono) (rule backup_config_step_mono)
  also have "\<dots> \<le> snd (fold backup_vuln_step (getd (vulnerabilities r) []) ?b)"
    by (rule fold_deductions_mono) (rule backup_vuln_step_mono)
  finally show ?thesis using w by (simp add: score_backup_dr_def Let_def)
qed

lemma score_security_monitoring_bounds:
  "0 \<le> w \<Longrightarrow> 0 \<le> fst (score_security_monitoring r w) \<and>
     fst (score_security_monitoring r w) \<le> w"
  by (simp add: score_security_monitoring_def Let_def)

lemma weights_nonneg: "(c, w) \<in> set category_weights \<Longrightarrow> 0 \<le> w"
  by (auto simp: category_weights_def)

lemma score_category_bounds:
  assumes "0 \<le> w"
    and "0 \<le> getd (security_score r) 0" "getd (security_score r) 0 \<le> 100"
    and "0 \<le> cve_deductions (getd (risk_summary r) no_risk_counts)"
  shows "0 \<le> fst (score_category c r w) \<and> fst (score_category c r w) \<le> w"
  using assms score_internet_exposure_bounds[of w r] score_tls_security_bounds[of w r]
    score_web_security_bounds[of r w] score_email_security_bounds[of w r]
    score_vulnerabilities_bounds[of r w] score_iam_assessment_bounds[of w r]
    score_backup_dr_bounds[of w r] score_security_monitoring_bounds[of w r]
  by (simp add: score_category_def)

text \<open>
  Claim C4, as amended. For a completed entry of one of the eight weighted categories,
  the score the category scorer returns (and \<open>calculate_score\<close> stores in
  \<open>category_scores\<close>) lies between 0 and the weight of the category, provided that the
  \<open>security_score\<close> of a web entry lies in \<open>[0, 100]\<close>, as the web scanner computes
  it, and that the four counts in \<open>risk_summary\<close> of a vulnerabilities entry are not
  negative. Without the proviso the claim fails: the web scorer scales \<open>security_score\<close>
  and does not clamp the result, so a \<open>security_score\<close> of 200 gives the score 30 for
  the weight 15.
\<close>

theorem completed_category_score_bounds:
  assumes "(c, w) \<in> set category_weights"
    and "status (get_result scan_res c) = Some ''completed''"
    and "c = ''web_security'' \<longrightarrow>
           0 \<le> getd (security_score (get_result scan_res c)) 0 \<and>
           getd (security_score (get_result scan_res c)) 0 \<le> 100"
    and "c = ''vulnerabilities'' \<longrightarrow>
           0 \<le> getd (critical_count (getd (risk_summary (get_result scan_res c)) no_risk_counts)) 0 \<and>
           0 \<le> getd (high_count (getd (risk_summary (get_result scan_res c)) no_risk_counts)) 0 \<and>
           0 \<le> getd (medium_count (getd (risk_summary (get_result scan_res c)) no_risk_counts)) 0 \<and>
           0 \<le> getd (low_count (getd (risk_summary (get_result scan_res c)) no_risk_counts)) 0"
  shows "\<exists>st' s. score_step scan_res (c, w) st = Inr st' \<and>
                category_scores st' c = Some (of_int s) \<and>
                s = fst (score_category c (get_result scan_res c) w) \<and>
                0 \<le> s \<and> s \<le> w"
proof -
  let ?r = "get_result scan_res c"
  from assms(1) have w: "0 \<le> w" by (rule weights_nonneg)
  from assms(1) obtain m where m: "map_of max_category_deduction c = Some m"
    by (auto simp: category_weights_def max_category_deduction_def)
  have step: "\<exists>st'. score_step scan_res (c, w) st = Inr st' \<and>
                category_scores st' c = Some (of_int (fst (score_category c ?r w)))"
    using assms(2) m by (simp add: score_step_def Let_def)
  have bounds: "0 \<le> fst (score_category c ?r w) \<and> fst (score_category c ?r w) \<le> w"
  proof (cases "c = ''web_security''")
    case True
    with assms(3) w show ?thesis
      using score_web_security_bounds[of ?r w] by (simp add: score_category_def)
  next
    case nw: False
    show ?thesis
    proof (cases "c = ''vulnerabilities''")
      case True
      with assms(4) have "0 \<le> cve_deductions (getd (risk_summary ?r) no_risk_counts)"
        by (intro cve_deductions_nonneg) simp_all
      with True w show ?thesis
        using score_vulnerabilities_bounds[of ?r w] by (simp add: score_category_def)
    next
      case False
      with nw w show ?thesis
        using score_internet_exposure_bounds[of w ?r] score_tls_security_bounds[of w ?r]
          score_email_security_bounds[of w ?r] score_iam_assessment_bounds[of w ?r]
          score_backup_dr_bounds[of w ?r] score_security_monitoring_bounds[of w ?r]
        by (auto simp: score_category_def)
    qed
  qed
  from step bounds show ?thesis by blast
qed

theorem completed_category_score_bounds_witness:
  "\<exists>st'. score_step [(''web_security'', example_web_result_80)] (''web_security'', 15) score_init
           = Inr st' \<and>
         category_scores st' ''web_security'' = Some 12"
proof -
  let ?sr = "[(''web_security'', example_web_result_80)]"
  have g: "get_result ?sr ''web_security'' = example_web_result_80"
    by (simp add: get_result_def getd_def)
  have h1: "(''web_security'', 15) \<in> set category_weights"
    by (simp add: category_weights_def)
  have h2: "status (get_result ?sr ''web_security'') = Some ''completed''"
    by (subst g) (simp add: example_web_result_80_def)
  have h3: "''web_security'' = ''web_security'' \<longrightarrow>
           0 \<le> getd (security_score (get_result ?sr ''web_security'')) 0 \<and>
           getd (security_score (get_result ?sr ''web_security'')) 0 \<le> 100"
    unfolding g by (simp add: example_web_result_80_def getd_def)
  have h4: "''web_security'' = ''vulnerabilities'' \<longrightarrow>
           0 \<le> getd (critical_count (getd (risk_summary (get_result ?sr ''web_security'')) no_risk_counts)) 0 \<and>
           0 \<le> getd (high_count (getd (risk_summary (get_result ?sr ''web_security'')) no_risk_counts)) 0 \<and>
           0 \<le> getd (medium_count (getd (risk_summary (get_result ?sr ''web_security'')) no_risk_counts)) 0 \<and>
           0 \<le> getd (low_count (getd (risk_summary (get_result ?sr ''web_security'')) no_risk_counts)) 0"
    by simp
  have v: "fst (score_category ''web_security'' example_web_result_80 15) = 12"
    by (simp add: score_category_def score_web_security_def example_web_result_80_def
        empty_result_def getd_def py_int_def Let_def)
  from completed_category_score_bounds[OF h1 h2 h3 h4, of score_init] g v
  show ?thesis by auto
qed

theorem completed_category_score_bounds_counterexample:
  "status example_web_result = Some ''completed'' \<and>
   fst (score_category ''web_security'' example_web_result 15) = 30 \<and>
   \<not> fst (score_category ''web_security'' example_web_result 15) \<le> 15"
  by (simp add: score_category_def score_web_security_def example_web_result_def
      empty_result_def getd_def py_int_def Let_def)

subsection \<open>A scan without findings\<close>

lemma clean_step:
  assumes "status (get_result scan_res c) = Some ''completed''"
    and "map_of max_category_deduction c = Some m" and "0 \<le> m"
    and "fst (score_category c (get_result scan_res c) w) = w"
    and "fst (snd (score_category c (get_result scan_res c) w)) = []"
    and "running_total st = PyInt t"
  shows "\<exists>st'. score_step scan_res (c, w) st = Inr st' \<and>
               running_total st' = PyInt t \<and> all_problems st' = all_problems st"
  using assms by (simp add: score_step_def Let_def)

lemma clean_loop:
  assumes "\<forall>cw\<in>set cws.
             status (get_result scan_res (fst cw)) = Some ''completed'' \<and>
             (\<exists>m. map_of max_category_deduction (fst cw) = Some m \<and> 0 \<le> m) \<and>
             fst (score_category (fst cw) (get_result scan_res (fst cw)) (snd cw)) = snd cw \<and>
             fst (snd (score_category (fst cw) (get_result scan_res (fst cw)) (snd cw))) = []"
    and "running_total st = PyInt t"
  shows "\<exists>st'. score_loop scan_res cws st = Inr st' \<and>
               running_total st' = PyInt t \<and> all_problems st' = all_problems st"
  using assms
proof (induction cws arbitrary: st)
  case Nil
  then show ?case by simp
next
  case (Cons cw cws)
  obtain c w where cw: "cw = (c, w)" by (cases cw)
  from Cons.prems(1) cw obtain m where
    h: "status (get_result scan_res c) = Some ''completed''"
       "map_of max_category_deduction c = Some m" "0 \<le> m"
       "fst (score_category c (get_result scan_res c) w) = w"
       "fst (snd (score_category c (get_result scan_res c) w)) = []"
    by auto
  from clean_step[OF h Cons.prems(2)] obtain st1 where
    s1: "score_step scan_res (c, w) st = Inr st1" "running_total st1 = PyInt t"
        "all_problems st1 = all_problems st"
    by blast
  from Cons.prems(1) have "\<forall>cw\<in>set cws.
             status (get_result scan_res (fst cw)) = Some ''completed'' \<and>
             (\<exists>m. map_of max_category_deduction (fst cw) = Some m \<and> 0 \<le> m) \<and>
             fst (score_category (fst cw) (get_result scan_res (fst cw)) (snd cw)) = snd cw \<and>
             fst (snd (score_category (fst cw) (get_result scan_res (fst cw)) (snd cw))) = []"
    by simp
  from Cons.IH[OF this s1(2)] obtain st2 where
    "score_loop scan_res cws st1 = Inr st2" "running_total st2 = PyInt t"
    "all_problems st2 = all_problems st1"
    by blast
  with s1 cw show ?case by simp
qed

lemma clean_internet_exposure:
  assumes "getd (open_ports r) [] = []"
  shows "fst (score_internet_exposure r w) = max 0 w \<and> fst (snd (score_internet_exposure r w)) = []"
  using assms by (simp add: score_internet_exposure_def Let_def)

lemma clean_tls_security:
  assumes "''TLSv1.0'' \<notin> set (getd (tls_versions r) [])"
    and "''TLSv1.1'' \<notin> set (getd (tls_versions r) [])"
    and "case certificate r of None \<Rightarrow> True | Some c \<Rightarrow> 30 \<le> getd (days_until_expiry c) 365"
    and "getd (vulnerabilities r) [] = []"
  shows "fst (score_tls_security r w) = max 0 w \<and> fst (snd (score_tls_security r w)) = []"
  using assms
  by (auto simp: score_tls_security_def tls_version_check_def tls_certificate_check_def Let_def
      split: option.splits)

lemma clean_web_security:
  assumes "getd (security_score r) 0 = 100"
    and "getd (missing_headers r) [] = []"
    and "getd (vulnerabilities r) [] = []"
  shows "fst (score_web_security r w) = w \<and> fst (snd (score_web_security r w)) = []"
  using assms by (simp add: score_web_security_def py_int_def Let_def)

lemma clean_email_security:
  assumes "\<exists>rec. spf r = Some rec \<and> rec_exists rec = Some True"
    and "\<exists>rec s ss. dkim r = Some rec \<and> selectors_found rec = Some (s # ss)"
    and "\<exists>rec. dmarc r = Some rec \<and> rec_exists rec = Some True"
    and "getd (vulnerabilities r) [] = []"
  shows "fst (score_email_security r w) = max 0 w \<and> fst (snd (score_email_security r w)) = []"
  using assms
  by (auto simp: score_email_security_def email_record_checks_def truthy_def getd_def Let_def)

lemma clean_vulnerabilities:
  assumes "getd (vulnerabilities r) [] = []"
    and "getd (critical_count (getd (risk_summary r) no_risk_counts)) 0 = 0"
    and "getd (high_count (getd (risk_summary r) no_risk_counts)) 0 = 0"
    and "getd (medium_count (getd (risk_summary r) no_risk_counts)) 0 = 0"
    and "getd (low_count (getd (risk_summary r) no_risk_counts)) 0 = 0"
  shows "fst (score_vulnerabilities r w) = max 0 w \<and> fst (snd (score_vulnerabilities r w)) = []"
  using assms by (simp add: score_vulnerabilities_def cve_deductions_def py_int_def Let_def)

lemma clean_iam_assessment:
  assumes "getd (admin_interfaces r) [] = []" and "getd (vulnerabilities r) [] = []"
  shows "fst (score_iam_assessment r w) = max 0 w \<and> fst (snd (score_iam_assessment r w)) = []"
  using assms by (simp add: score_iam_assessment_def Let_def)

lemma clean_backup_dr:
  assumes "getd (exposed_backups r) [] = []" and "getd (config_files r) [] = []"
    and "getd (vulnerabilities r) [] = []"
  shows "fst (score_backup_dr r w) = max 0 w \<and> fst (snd (score_backup_dr r w)) = []"
  using assms by (simp add: score_backup_dr_def Let_def)

lemma clean_security_monitoring:
  assumes "waf_detected r = Some True" "ddos_protection r = Some True"
    "rate_limiting r = Some True"
  shows "fst (score_security_monitoring r w) = max 0 w \<and>
         fst (snd (score_security_monitoring r w)) = []"
  using assms by (simp add: score_security_monitoring_def getd_def Let_def)

lemma map_of_example_clean:
  "c \<in> set scan_categories \<Longrightarrow> map_of example_clean c = Some clean_result"
  by (auto simp: example_clean_def scan_categories_def)

text \<open>
  Claim C5, as amended. Let each of the eight categories have a completed entry without
  findings, which is to say: the internet exposure entry lists no open port; the TLS
  entry lists neither TLSv1.0 nor TLSv1.1 and has no certificate or one that is valid
  for at least 30 more days; the lists of vulnerabilities of the TLS, web, email, CVE,
  IAM and backup entries are empty; the web entry lists no missing header; the email
  entry reports an existing SPF record, at least one DKIM selector and an existing DMARC
  record; the four risk counts of the CVE entry are zero; the IAM entry lists no admin
  interface; the backup entry lists no exposed backup and no configuration file. Let,
  in addition, the web entry have \<open>security_score = 100\<close> and the monitoring entry
  report a WAF, DDoS protection and rate limiting as detected. Then the final score is
  100 and the problem list is empty. The two additions are needed: the web scorer takes
  its score from \<open>security_score\<close> (default 0), and the monitoring scorer reports each
  control that is not detected as a problem, although the monitoring scanner lists no
  finding for it. On eight completed entries without findings, with no \<open>security_score\<close>
  and no control detected, the score is 82 and there are 3 problems.
\<close>

theorem all_clean_score_100:
  assumes ie: "map_of scan_res ''internet_exposure'' = Some r_ie"
      "status r_ie = Some ''completed''" "getd (open_ports r_ie) [] = []"
    and tl: "map_of scan_res ''tls_security'' = Some r_tls"
      "status r_tls = Some ''completed''"
      "''TLSv1.0'' \<notin> set (getd (tls_versions r_tls) [])"
      "''TLSv1.1'' \<notin> set (getd (tls_versions r_tls) [])"
      "case certificate r_tls of None \<Rightarrow> True
       | Some c \<Rightarrow> 30 \<le> getd (days_until_expiry c) 365"
      "getd (vulnerabilities r_tls) [] = []"
    and wb: "map_of scan_res ''web_security'' = Some r_web"
      "status r_web = Some ''completed''" "getd (security_score r_web) 0 = 100"
      "getd (missing_headers r_web) [] = []" "getd (vulnerabilities r_web) [] = []"
    and em: "map_of scan_res ''email_security'' = Some r_email"
      "status r_email = Some ''completed''"
      "\<exists>rec. spf r_email = Some rec \<and> rec_exists rec = Some True"
      "\<exists>rec s ss. dkim r_email = Some rec \<and> selectors_found rec = Some (s # ss)"
      "\<exists>rec. dmarc r_email = Some rec \<and> rec_exists rec = Some True"
      "getd (vulnerabilities r_email) [] = []"
    and cv: "map_of scan_res ''vulnerabilities'' = Some r_cve"
      "status r_cve = Some ''completed''" "getd (vulnerabilities r_cve) [] = []"
      "getd (critical_count (getd (risk_summary r_cve) no_risk_counts)) 0 = 0"
      "getd (high_count (getd (risk_summary r_cve) no_risk_counts)) 0 = 0"
      "getd (medium_count (getd (risk_summary r_cve) no_risk_counts)) 0 = 0"
      "getd (low_count (getd (risk_summary r_cve) no_risk_counts)) 0 = 0"
    and ia: "map_of scan_res ''iam_assessment'' = Some r_iam"
      "status r_iam = Some ''completed''" "getd (admin_interfaces r_iam) [] = []"
      "getd (vulnerabilities r_iam) [] = []"
    and bk: "map_of scan_res ''backup_dr'' = Some r_backup"
      "status r_backup = Some ''completed''" "getd (exposed_backups r_backup) [] = []"
      "getd (config_files r_backup) [] = []" "getd (vulnerabilities r_backup) [] = []"
    and mo: "map_of scan_res ''logging_monitoring'' = Some r_mon"
      "status r_mon = Some ''completed''" "waf_detected r_mon = Some True"
      "ddos_protection r_mon = Some True" "rate_limiting r_mon = Some True"
  shows "\<exists>recs summ. calculate_score scan_res = Inr (100, [], recs, summ)"
proof -
  have g: "get_result scan_res ''internet_exposure'' = r_ie"
    "get_result scan_res ''tls_security'' = r_tls"
    "get_result scan_res ''web_security'' = r_web"
    "get_result scan_res ''email_security'' = r_email"
    "get_result scan_res ''vulnerabilities'' = r_cve"
    "get_result scan_res ''iam_assessment'' = r_iam"
    "get_result scan_res ''backup_dr'' = r_backup"
    "get_result scan_res ''logging_monitoring'' = r_mon"
    using ie(1) tl(1) wb(1) em(1) cv(1) ia(1) bk(1) mo(1)
    by (simp_all add: get_result_present)
  have all: "\<forall>cw\<in>set category_weights.
             status (get_result scan_res (fst cw)) = Some ''completed'' \<and>
             (\<exists>m. map_of max_category_deduction (fst cw) = Some m \<and> 0 \<le> m) \<and>
             fst (score_category (fst cw) (get_result scan_res (fst cw)) (snd cw)) = snd cw \<and>
             fst (snd (score_category (fst cw) (get_result scan_res (fst cw)) (snd cw))) = []"
    using clean_internet_exposure[OF ie(3), of 20]
      clean_tls_security[OF tl(3,4,5,6), of 15]
      clean_web_security[OF wb(3,4,5), of 15]
      clean_email_security[OF em(3,4,5,6), of 10]
      clean_vulnerabilities[OF cv(3,4,5,6,7), of 25]
      clean_iam_assessment[OF ia(3,4), of 8]
      clean_backup_dr[OF bk(3,4,5), of 4]
      clean_security_monitoring[OF mo(3,4,5), of 3]
      ie(2) tl(2) wb(2) em(2) cv(2) ia(2) bk(2) mo(2)
    by (simp add: category_weights_def max_category_deduction_def g score_category_def)
  have "running_total score_init = PyInt 100" by (simp add: score_init_def)
  from clean_loop[OF all this] obtain st where
    st: "score_loop scan_res category_weights score_init = Inr st"
      "running_total st = PyInt 100" "all_problems st = []"
    by (auto simp: score_init_def)
  then show ?thesis
    by (simp add: calculate_score_def Let_def py_int_def prioritize_problems_def
        total_score_def)
qed

theorem all_clean_score_100_witness:
  "\<exists>recs summ. calculate_score example_clean = Inr (100, [], recs, summ)"
proof -
  have m: "map_of example_clean ''internet_exposure'' = Some clean_result"
    "map_of example_clean ''tls_security'' = Some clean_result"
    "map_of example_clean ''web_security'' = Some clean_result"
    "map_of example_clean ''email_security'' = Some clean_result"
    "map_of example_clean ''vulnerabilities'' = Some clean_result"
    "map_of example_clean ''iam_assessment'' = Some clean_result"
    "map_of example_clean ''backup_dr'' = Some clean_result"
    "map_of example_clean ''logging_monitoring'' = Some clean_result"
    by (simp_all add: map_of_example_clean scan_categories_def)
  have f: "status clean_result = Some ''completed''"
    "getd (open_ports clean_result) [] = []"
    "''TLSv1.0'' \<notin> set (getd (tls_versions clean_result) [])"
    "''TLSv1.1'' \<notin> set (getd (tls_versions clean_result) [])"
    "case certificate clean_result of None \<Rightarrow> True
       | Some c \<Rightarrow> 30 \<le> getd (days_until_expiry c) 365"
    "getd (vulnerabilities clean_result) [] = []"
    "getd (security_score clean_result) 0 = 100"
    "getd (missing_headers clean_result) [] = []"
    "\<exists>rec. spf clean_result = Some rec \<and> rec_exists rec = Some True"
    "\<exists>rec s ss. dkim clean_result = Some rec \<and> selectors_found rec = Some (s # ss)"
    "\<exists>rec. dmarc clean_result = Some rec \<and> rec_exists rec = Some True"
    "getd (critical_count (getd (risk_summary clean_result) no_risk_counts)) 0 = 0"
    "getd (high_count (getd (risk_summary clean_result) no_risk_counts)) 0 = 0"
    "getd (medium_count (getd (risk_summary clean_result) no_risk_counts)) 0 = 0"
    "getd (low_count (getd (risk_summary clean_result) no_risk_counts)) 0 = 0"
    "getd (admin_interfaces clean_result) [] = []"
    "getd (exposed_backups clean_result) [] = []"
    "getd (config_files clean_result) [] = []"
    "waf_detected clean_result = Some True"
    "ddos_protection clean_result = Some True"
    "rate_limiting clean_result = Some True"
    by (simp_all add: clean_result_def no_findings_result_def empty_result_def getd_def
        no_risk_counts_def)
  show ?thesis
    by (rule all_clean_score_100[OF m(1) f(1) f(2) m(2) f(1) f(3) f(4) f(5) f(6)
          m(3) f(1) f(7) f(8) f(6) m(4) f(1) f(9) f(10) f(11) f(6)
          m(5) f(1) f(6) f(12) f(13) f(14) f(15) m(6) f(1) f(16) f(6)
          m(7) f(1) f(17) f(18) f(6) m(8) f(1) f(19) f(20) f(21)])
qed

theorem all_clean_score_100_counterexample:
  "map_sum id fst (calculate_score example_no_findings) = Inr 82 \<and>
   map_sum id (length \<circ> fst \<circ> snd) (calculate_score example_no_findings) = Inr 3"
  by (simp add: calculate_score_def example_no_findings_def scan_categories_def
      no_findings_result_def empty_result_def category_weights_def max_category_deduction_def
      score_init_def score_step_def get_result_def getd_def score_category_def
      score_internet_exposure_def score_tls_security_def tls_version_check_def
      tls_certificate_check_def score_web_security_def score_email_security_def
      email_record_checks_def score_vulnerabilities_def cve_deductions_def no_risk_counts_def
      score_iam_assessment_def score_backup_dr_def score_security_monitoring_def
      truthy_def py_int_def prioritize_problems_def total_score_def Let_def)

section \<open>Properties of the probes and of the orchestrator\<close>

subsection \<open>A legacy TLS version\<close>

lemma test_tls_versions_legacy:
  assumes "\<forall>v\<in>set tls_version_names.
             (handshake env p v = HandshakeOk) = (v \<in> set [''TLSv1.0'', ''TLSv1.2''])"
  shows "test_tls_versions env p results =
           results\<lparr>tls_versions := Some [''TLSv1.0'', ''TLSv1.2''],
                   vulnerabilities :=
                     Some (getd (vulnerabilities results) [] @
                           [weak_tls_version_finding ''TLSv1.0''])\<rparr>"
  using assms
  by (simp add: test_tls_versions_def tls_version_names_def vulnerable_versions_def Let_def)

lemma get_certificate_info_sound:
  assumes "\<forall>pc. peer_certificate env p = Inr pc \<longrightarrow>
             30 \<le> pc_days_until_expiry pc \<and> 2048 \<le> pc_key_size pc"
    and "vulnerabilities results = Some vs"
    and "case certificate results of None \<Rightarrow> True
         | Some c \<Rightarrow> \<exists>d. days_until_expiry c = Some d \<and> 30 \<le> d"
  shows "tls_versions (get_certificate_info env p results) = tls_versions results \<and>
         status (get_certificate_info env p results) = status results \<and>
         vulnerabilities (get_certificate_info env p results) = Some vs \<and>
         (case certificate (get_certificate_info env p results) of
            None \<Rightarrow> True
          | Some c \<Rightarrow> \<exists>d. days_until_expiry c = Some d \<and> 30 \<le> d)"
  using assms
  by (cases "peer_certificate env p")
     (auto simp: get_certificate_info_def Let_def getd_def split: option.splits)

lemma test_cipher_suites_sound:
  assumes "\<forall>name. negotiated_cipher env p = Inr (Some name) \<longrightarrow>
             \<not> list_ex (\<lambda>weak. is_substring weak name) weak_ciphers"
  shows "tls_versions (test_cipher_suites env p results) = tls_versions results \<and>
         status (test_cipher_suites env p results) = status results \<and>
         vulnerabilities (test_cipher_suites env p results) = vulnerabilities results \<and>
         certificate (test_cipher_suites env p results) = certificate results"
  using assms
  by (auto simp: test_cipher_suites_def Let_def split: sum.splits option.splits)

lemma analyze_tls_service_legacy:
  assumes hs: "\<forall>v\<in>set tls_version_names.
               (handshake env p v = HandshakeOk) = (v \<in> set [''TLSv1.0'', ''TLSv1.2''])"
    and cert: "\<forall>pc. peer_certificate env p = Inr pc \<longrightarrow>
                 30 \<le> pc_days_until_expiry pc \<and> 2048 \<le> pc_key_size pc"
    and ciph: "\<forall>name. negotiated_cipher env p = Inr (Some name) \<longrightarrow>
                 \<not> list_ex (\<lambda>weak. is_substring weak name) weak_ciphers"
    and vs: "vulnerabilities results = Some vs"
    and ok: "case certificate results of None \<Rightarrow> True
             | Some c \<Rightarrow> \<exists>d. days_until_expiry c = Some d \<and> 30 \<le> d"
  shows "tls_versions (analyze_tls_service env sc p results) =
           Some [''TLSv1.0'', ''TLSv1.2''] \<and>
         status (analyze_tls_service env sc p results) = status results \<and>
         vulnerabilities (analyze_tls_service env sc p results) =
           Some (vs @ [weak_tls_version_finding ''TLSv1.0'']) \<and>
         (case certificate (analyze_tls_service env sc p results) of
            None \<Rightarrow> True
          | Some c \<Rightarrow> \<exists>d. days_until_expiry c = Some d \<and> 30 \<le> d)"
proof -
  define r1 where "r1 = test_tls_versions env p results"
  define r2 where "r2 = get_certificate_info env p r1"
  have r1: "tls_versions r1 = Some [''TLSv1.0'', ''TLSv1.2'']"
    "status r1 = status results"
    "vulnerabilities r1 = Some (vs @ [weak_tls_version_finding ''TLSv1.0''])"
    "certificate r1 = certificate results"
    unfolding r1_def test_tls_versions_legacy[OF hs] by (simp_all add: vs getd_def)
  from ok r1(4) have ok1: "case certificate r1 of None \<Rightarrow> True
             | Some c \<Rightarrow> \<exists>d. days_until_expiry c = Some d \<and> 30 \<le> d"
    by simp
  from get_certificate_info_sound[OF cert r1(3) ok1] r1(1,2)
  have r2: "tls_versions r2 = Some [''TLSv1.0'', ''TLSv1.2'']"
    "status r2 = status results"
    "vulnerabilities r2 = Some (vs @ [weak_tls_version_finding ''TLSv1.0''])"
    "case certificate r2 of None \<Rightarrow> True
     | Some c \<Rightarrow> \<exists>d. days_until_expiry c = Some d \<and> 30 \<le> d"
    unfolding r2_def by simp_all
  have "analyze_tls_service env sc p results = r2 \<or>
        analyze_tls_service env sc p results = test_cipher_suites env p r2"
    by (simp add: analyze_tls_service_def r1_def r2_def Let_def)
  with r2 test_cipher_suites_sound[OF ciph, of r2] show ?thesis by auto
qed

lemma analyze_fold_legacy:
  assumes "\<forall>s\<in>set svcs.
             (\<forall>v\<in>set tls_version_names.
                (handshake env (svc_port s) v = HandshakeOk) =
                (v \<in> set [''TLSv1.0'', ''TLSv1.2''])) \<and>
             (\<forall>pc. peer_certificate env (svc_port s) = Inr pc \<longrightarrow>
                30 \<le> pc_days_until_expiry pc \<and> 2048 \<le> pc_key_size pc) \<and>
             (\<forall>name. negotiated_cipher env (svc_port s) = Inr (Some name) \<longrightarrow>
                \<not> list_ex (\<lambda>weak. is_substring weak name) weak_ciphers)"
    and "vulnerabilities results = Some vs"
    and "case certificate results of None \<Rightarrow> True
         | Some c \<Rightarrow> \<exists>d. days_until_expiry c = Some d \<and> 30 \<le> d"
  shows "(svcs \<noteq> [] \<longrightarrow>
            tls_versions (fold (\<lambda>svc. analyze_tls_service env sc (svc_port svc)) svcs results) =
              Some [''TLSv1.0'', ''TLSv1.2'']) \<and>
         status (fold (\<lambda>svc. analyze_tls_service env sc (svc_port svc)) svcs results) =
           status results \<and>
         vulnerabilities (fold (\<lambda>svc. analyze_tls_service env sc (svc_port svc)) svcs results) =
           Some (vs @ replicate (length svcs) (weak_tls_version_finding ''TLSv1.0'')) \<and>
         (case certificate
                 (fold (\<lambda>svc. analyze_tls_service env sc (svc_port svc)) svcs results) of
            None \<Rightarrow> True
          | Some c \<Rightarrow> \<exists>d. days_until_expiry c = Some d \<and> 30 \<le> d)"
  using assms
proof (induction svcs arbitrary: results vs)
  case Nil
  then show ?case by simp
next
  case (Cons s svcs)
  let ?a = "analyze_tls_service env sc (svc_port s) results"
  from Cons.prems(1) have
    hs: "\<forall>v\<in>set tls_version_names.
           (handshake env (svc_port s) v = HandshakeOk) = (v \<in> set [''TLSv1.0'', ''TLSv1.2''])"
    and cert: "\<forall>pc. peer_certificate env (svc_port s) = Inr pc \<longrightarrow>
                 30 \<le> pc_days_until_expiry pc \<and> 2048 \<le> pc_key_size pc"
    and ciph: "\<forall>name. negotiated_cipher env (svc_port s) = Inr (Some name) \<longrightarrow>
                 \<not> list_ex (\<lambda>weak. is_substring weak name) weak_ciphers"
    by simp_all
  from analyze_tls_service_legacy[OF hs cert ciph Cons.prems(2) Cons.prems(3), of sc]
  have a: "tls_versions ?a = Some [''TLSv1.0'', ''TLSv1.2'']"
    "status ?a = status results"
    "vulnerabilities ?a = Some (vs @ [weak_tls_version_finding ''TLSv1.0''])"
    "case certificate ?a of None \<Rightarrow> True
     | Some c \<Rightarrow> \<exists>d. days_until_expiry c = Some d \<and> 30 \<le> d"
    by simp_all
  from Cons.prems(1) have rest: "\<forall>s\<in>set svcs.
             (\<forall>v\<in>set tls_version_names.
                (handshake env (svc_port s) v = HandshakeOk) =
                (v \<in> set [''TLSv1.0'', ''TLSv1.2''])) \<and>
             (\<forall>pc. peer_certificate env (svc_port s) = Inr pc \<longrightarrow>
                30 \<le> pc_days_until_expiry pc \<and> 2048 \<le> pc_key_size pc) \<and>
             (\<forall>name. negotiated_cipher env (svc_port s) = Inr (Some name) \<longrightarrow>
                \<not> list_ex (\<lambda>weak. is_substring weak name) weak_ciphers)"
    by simp
  from Cons.IH[OF rest a(3) a(4)] a(1,2) show ?case
    by (cases "svcs = []") (simp_all add: replicate_append_same)
qed

lemma fold_tls_vuln_step_replicate:
  "snd (fold tls_vuln_step (replicate n (weak_tls_version_finding ''TLSv1.0'')) acc) =
     snd acc + int n"
  by (induction n arbitrary: acc)
     (simp_all add: tls_vuln_step_def weak_tls_version_finding_def getd_def)

lemma score_tls_legacy:
  assumes "tls_versions r = Some [''TLSv1.0'', ''TLSv1.2'']"
    and "vulnerabilities r = Some (replicate n (weak_tls_version_finding ''TLSv1.0''))"
    and "case certificate r of None \<Rightarrow> True
         | Some c \<Rightarrow> \<exists>d. days_until_expiry c = Some d \<and> 30 \<le> d"
  shows "fst (score_tls_security r w) = max 0 (w - 6 - int n)"
proof -
  have "tls_certificate_check (certificate r) (tls_version_check [''TLSv1.0'', ''TLSv1.2'']) =
          tls_version_check [''TLSv1.0'', ''TLSv1.2'']"
    using assms(3)
    by (auto simp: tls_certificate_check_def getd_def Let_def split: option.splits)
  moreover have "snd (tls_version_check [''TLSv1.0'', ''TLSv1.2'']) = 6"
    by (simp add: tls_version_check_def)
  ultimately show ?thesis
    using assms(1,2) fold_tls_vuln_step_replicate[of n
        "tls_version_check [''TLSv1.0'', ''TLSv1.2'']"]
    by (simp add: score_tls_security_def getd_def Let_def)
qed

lemma create_result_payload:
  "status (create_result sc stat (Some d) None) = upd (status d) (Some stat) \<and>
   tls_versions (create_result sc stat (Some d) None) = tls_versions d \<and>
   vulnerabilities (create_result sc stat (Some d) None) = vulnerabilities d \<and>
   certificate (create_result sc stat (Some d) None) = certificate d"
  by (simp add: create_result_def dict_update_def upd_def empty_result_def Let_def
      split: option.splits)

lemma check_hsts_present:
  assumes "h \<noteq> []"
  shows "check_hsts (Inr (Some h)) results = results\<lparr>hsts_enabled := Some True\<rparr>"
  using assms by (simp add: check_hsts_def)

text \<open>
  Claim C3, as amended. Let the TLS probe find \<open>n \<ge> 1\<close> TLS services, on each of which
  exactly TLSv1.0 and TLSv1.2 complete a handshake, and let nothing else be weak: on
  each of these ports the certificate, if one is read, is valid for at least 30 days
  with a key of at least 2048 bits and the negotiated cipher, if one is read, is not a
  weak one, and the HSTS header is present if port 443 or 8443 is among them. Then
  \<open>scan()\<close> returns a completed result that reports the versions TLSv1.0 and TLSv1.2 and
  whose findings are \<open>n\<close> \<open>weak_tls_version\<close> findings of severity medium, one for each
  port, and the scoring engine gives the category the score \<open>max 0 (weight - 6 - n)\<close>: 6
  for the outdated version, and 1 more for each medium finding in \<open>vulnerabilities\<close>,
  which the scorer counts as well. With one TLS port (a quick scan never finds more)
  the score is \<open>weight - 7\<close>. The claim as stated (\<open>weight - 6\<close>) fails on the example:
  the score is 8, not 9.
\<close>

theorem tls_legacy_version_score:
  assumes svc: "find_tls_services env (start_scan sc) = svcs" "svcs \<noteq> []"
    and each: "\<forall>s\<in>set svcs.
             (\<forall>v\<in>set tls_version_names.
                (handshake env (svc_port s) v = HandshakeOk) =
                (v \<in> set [''TLSv1.0'', ''TLSv1.2''])) \<and>
             (\<forall>pc. peer_certificate env (svc_port s) = Inr pc \<longrightarrow>
                30 \<le> pc_days_until_expiry pc \<and> 2048 \<le> pc_key_size pc) \<and>
             (\<forall>name. negotiated_cipher env (svc_port s) = Inr (Some name) \<longrightarrow>
                \<not> list_ex (\<lambda>weak. is_substring weak name) weak_ciphers)"
    and hsts: "list_ex (\<lambda>s. svc_port s \<in> set [443, 8443]) svcs \<longrightarrow>
                 (\<exists>h. hsts_check env = Inr (Inr (Some h)) \<and> h \<noteq> [])"
  shows "\<exists>r. tls_scan env sc = Inr r \<and>
             status r = Some ''completed'' \<and>
             tls_versions r = Some [''TLSv1.0'', ''TLSv1.2''] \<and>
             vulnerabilities r =
               Some (replicate (length svcs) (weak_tls_version_finding ''TLSv1.0'')) \<and>
             vuln_type (weak_tls_version_finding ''TLSv1.0'') = Some ''weak_tls_version'' \<and>
             vuln_severity (weak_tls_version_finding ''TLSv1.0'') = Some ''medium'' \<and>
             fst (score_tls_security r w) = max 0 (w - 6 - int (length svcs))"
proof -
  let ?sc = "start_scan sc"
  define a where
    "a = fold (\<lambda>svc. analyze_tls_service env ?sc (svc_port svc)) svcs tls_initial_results"
  have init: "vulnerabilities tls_initial_results = Some []"
    "case certificate tls_initial_results of None \<Rightarrow> True
     | Some c \<Rightarrow> \<exists>d. days_until_expiry c = Some d \<and> 30 \<le> d"
    "status tls_initial_results = None"
    by (simp_all add: tls_initial_results_def empty_result_def)
  from analyze_fold_legacy[OF each init(1) init(2), of ?sc] svc(2) init(3)
  have a: "tls_versions a = Some [''TLSv1.0'', ''TLSv1.2'']"
    "status a = None"
    "vulnerabilities a =
       Some (replicate (length svcs) (weak_tls_version_finding ''TLSv1.0''))"
    "case certificate a of None \<Rightarrow> True
     | Some c \<Rightarrow> \<exists>d. days_until_expiry c = Some d \<and> 30 \<le> d"
    unfolding a_def by simp_all
  define payload where
    "payload = (if list_ex (\<lambda>s. svc_port s \<in> set [443, 8443]) svcs
                then a\<lparr>hsts_enabled := Some True\<rparr> else a)"
  have body: "tls_scan_body env ?sc = Inr (create_result ?sc ''completed'' (Some payload) None)"
  proof (cases "list_ex (\<lambda>s. svc_port s \<in> set [443, 8443]) svcs")
    case True
    with hsts obtain h where h: "hsts_check env = Inr (Inr (Some h))" "h \<noteq> []" by blast
    from True svc(2) show ?thesis
      by (simp add: tls_scan_body_def svc(1) Let_def h check_hsts_present[OF h(2)] payload_def
          a_def)
  next
    case False
    with svc(2) show ?thesis
      by (simp add: tls_scan_body_def svc(1) Let_def payload_def a_def)
  qed
  define r where "r = create_result ?sc ''completed'' (Some payload) None"
  have scan: "tls_scan env sc = Inr r"
    by (simp add: tls_scan_def Let_def body r_def)
  have pl: "tls_versions payload = Some [''TLSv1.0'', ''TLSv1.2'']"
    "vulnerabilities payload =
       Some (replicate (length svcs) (weak_tls_version_finding ''TLSv1.0''))"
    "certificate payload = certificate a" "status payload = None"
    using a by (simp_all add: payload_def)
  have rf: "status r = Some ''completed''"
    "tls_versions r = Some [''TLSv1.0'', ''TLSv1.2'']"
    "vulnerabilities r =
       Some (replicate (length svcs) (weak_tls_version_finding ''TLSv1.0''))"
    "certificate r = certificate a"
    unfolding r_def using create_result_payload[of ?sc "''completed''" payload] pl
    by (simp_all add: upd_def)
  from rf a(4) have "fst (score_tls_security r w) = max 0 (w - 6 - int (length svcs))"
    by (intro score_tls_legacy) simp_all
  with scan rf show ?thesis
    by (simp add: weak_tls_version_finding_def)
qed

theorem tls_legacy_version_score_witness:
  "\<exists>r. tls_scan example_tls_env example_scanner = Inr r \<and>
       status r = Some ''completed'' \<and>
       tls_versions r = Some [''TLSv1.0'', ''TLSv1.2''] \<and>
       vulnerabilities r = Some [weak_tls_version_finding ''TLSv1.0''] \<and>
       fst (score_tls_security r 15) = 8"
proof -
  let ?svcs = "[\<lparr>svc_port = 443, svc_protocol = ''HTTPS''\<rparr>]"
  have svc: "find_tls_services example_tls_env (start_scan example_scanner) = ?svcs"
    by (simp add: find_tls_services_def example_tls_env_def example_scanner_def
        start_scan_def should_scan_quickly_def tls_ports_def get_protocol_for_port_def
        protocol_map_def getd_def)
  have ne: "?svcs \<noteq> []" by simp
  have each: "\<forall>s\<in>set ?svcs.
             (\<forall>v\<in>set tls_version_names.
                (handshake example_tls_env (svc_port s) v = HandshakeOk) =
                (v \<in> set [''TLSv1.0'', ''TLSv1.2''])) \<and>
             (\<forall>pc. peer_certificate example_tls_env (svc_port s) = Inr pc \<longrightarrow>
                30 \<le> pc_days_until_expiry pc \<and> 2048 \<le> pc_key_size pc) \<and>
             (\<forall>name. negotiated_cipher example_tls_env (svc_port s) = Inr (Some name) \<longrightarrow>
                \<not> list_ex (\<lambda>weak. is_substring weak name) weak_ciphers)"
    by (auto simp: example_tls_env_def tls_version_names_def weak_ciphers_def
        is_substring_def)
  have hsts: "list_ex (\<lambda>s. svc_port s \<in> set [443, 8443]) ?svcs \<longrightarrow>
                (\<exists>h. hsts_check example_tls_env = Inr (Inr (Some h)) \<and> h \<noteq> [])"
    by (simp add: example_tls_env_def)
  from tls_legacy_version_score[OF svc ne each hsts, of 15]
  obtain r where "tls_scan example_tls_env example_scanner = Inr r"
    "status r = Some ''completed''"
    "tls_versions r = Some [''TLSv1.0'', ''TLSv1.2'']"
    "vulnerabilities r =
       Some (replicate (length ?svcs) (weak_tls_version_finding ''TLSv1.0''))"
    "fst (score_tls_security r 15) = max 0 (15 - 6 - int (length ?svcs))"
    by blast
  then show ?thesis by simp
qed

theorem tls_legacy_version_score_counterexample:
  "tls_scan example_tls_env example_scanner = Inr example_tls_result \<and>
   fst (score_tls_security example_tls_result 15) = 8 \<and>
   fst (score_tls_security example_tls_result 15) \<noteq> max 0 (15 - 6)"
proof -
  have scan: "tls_scan example_tls_env example_scanner = Inr example_tls_result"
    by (simp add: tls_scan_def tls_scan_body_def example_tls_env_def example_scanner_def
      start_scan_def find_tls_services_def should_scan_quickly_def tls_ports_def
      get_protocol_for_port_def protocol_map_def getd_def tls_initial_results_def
      empty_result_def analyze_tls_service_def test_tls_versions_def tls_version_names_def
      vulnerable_versions_def get_certificate_info_def test_cipher_suites_def
      weak_ciphers_def is_substring_def check_hsts_def create_result_def dict_update_def
      upd_def get_scan_duration_def weak_tls_version_finding_def example_tls_result_def
      Let_def)
  have score: "fst (score_tls_security example_tls_result 15) = 8"
    by (simp add: example_tls_result_def empty_result_def score_tls_security_def
      tls_version_check_def tls_certificate_check_def tls_vuln_step_def getd_def Let_def)
  from scan score show ?thesis by simp
qed

subsection \<open>The orchestrator keeps one entry per category\<close>

lemma update_fresh: "k \<notin> fst ` set al \<Longrightarrow> AList.update k v al = al @ [(k, v)]"
  by (induction al) auto

lemma orchestrate_loop_fresh:
  assumes "distinct cats" "set cats \<inter> fst ` set results = {}"
  shows "orchestrate_loop env tgt stype tsk n i cats results =
           results @
           map (\<lambda>(j, c). (c, case scan_category env tgt stype tsk j n c of
                               Inl e \<Rightarrow> failed_entry e | Inr r \<Rightarrow> r))
               (enumerate i cats)"
  using assms
proof (induction cats arbitrary: i results)
  case Nil
  then show ?case by simp
next
  case (Cons c cs)
  let ?v = "case scan_category env tgt stype tsk i n c of
              Inl e \<Rightarrow> failed_entry e | Inr r \<Rightarrow> r"
  from Cons.prems have fresh: "c \<notin> fst ` set results" by auto
  have upd: "(case scan_category env tgt stype tsk i n c of
               Inr category_res \<Rightarrow> AList.update c category_res results
             | Inl e \<Rightarrow> AList.update c (failed_entry e) results) = results @ [(c, ?v)]"
    using update_fresh[OF fresh] by (cases "scan_category env tgt stype tsk i n c") simp_all
  from Cons.prems have d: "distinct cs" and dis: "set cs \<inter> fst ` set (results @ [(c, ?v)]) = {}"
    by auto
  show ?case
    unfolding orchestrate_loop.simps upd Cons.IH[OF d dis] by simp
qed

text \<open>
  Claim C6. For every target, scan mode and task, and whatever the eight scanner
  classes do, the dictionary \<open>run_comprehensive_scan\<close> returns has exactly the eight
  scheduled categories as its keys, each once and in the scheduled order. The entry of
  a category is the result its scanner returned, or, when the progress update, the
  constructor or \<open>scan()\<close> raised an exception \<open>e\<close>, the failed entry built from \<open>e\<close>,
  whose status is \<open>failed\<close>. Exceptions are the subclasses of \<open>Exception\<close>, which the
  handler \<open>except Exception\<close> catches.
\<close>

theorem run_comprehensive_scan_entries:
  "map fst (run_comprehensive_scan env tgt stype tsk) = scan_categories \<and>
   distinct scan_categories \<and> length scan_categories = 8 \<and>
   run_comprehensive_scan env tgt stype tsk =
     map (\<lambda>(j, c). (c, case scan_category env tgt stype tsk j 8 c of
                         Inl e \<Rightarrow> failed_entry e | Inr r \<Rightarrow> r))
         (enumerate 0 scan_categories) \<and>
   (\<forall>e. status (failed_entry e) = Some ''failed'' \<and>
        result_note (failed_entry e) = Some (''Scanning not possible: '' @ exn_str e))"
proof -
  have d: "distinct scan_categories" and l: "length scan_categories = 8"
    by (simp_all add: scan_categories_def)
  have run: "run_comprehensive_scan env tgt stype tsk =
     map (\<lambda>(j, c). (c, case scan_category env tgt stype tsk j 8 c of
                         Inl e \<Rightarrow> failed_entry e | Inr r \<Rightarrow> r))
         (enumerate 0 scan_categories)"
    unfolding run_comprehensive_scan_def
    using orchestrate_loop_fresh[OF d, of "[]" env tgt stype tsk 8 0] by (simp add: l)
  have keys: "map fst (run_comprehensive_scan env tgt stype tsk) = scan_categories"
  proof -
    have "map fst (run_comprehensive_scan env tgt stype tsk) =
          map snd (enumerate 0 scan_categories)"
      unfolding run by (simp add: case_prod_beta comp_def)
    also have "\<dots> = scan_categories" by simp
    finally show ?thesis .
  qed
  have f: "\<forall>e. status (failed_entry e) = Some ''failed'' \<and>
        result_note (failed_entry e) = Some (''Scanning not possible: '' @ exn_str e)"
    by (simp add: failed_entry_def)
  from keys d l run f show ?thesis by blast
qed

theorem run_comprehensive_scan_entries_witness:
  "map fst (run_comprehensive_scan example_failing_env ''nowhere'' ''full'' None) =
     scan_categories \<and>
   map (status \<circ> snd)
     (run_comprehensive_scan example_failing_env ''nowhere'' ''full'' None) =
     replicate 8 (Some ''failed'')"
proof -
  from run_comprehensive_scan_entries[of example_failing_env "''nowhere''" "''full''" None]
  have keys: "map fst (run_comprehensive_scan example_failing_env ''nowhere'' ''full'' None) =
     scan_categories"
    and run: "run_comprehensive_scan example_failing_env ''nowhere'' ''full'' None =
     map (\<lambda>(j, c). (c, case scan_category example_failing_env ''nowhere'' ''full'' None j 8 c of
                         Inl e \<Rightarrow> failed_entry e | Inr r \<Rightarrow> r))
         (enumerate 0 scan_categories)"
    by blast+
  have sc: "scan_category example_failing_env ''nowhere'' ''full'' None j 8 c =
          Inl (InvalidTargetError ''Invalid target: nowhere'')" for j c
    by (simp add: scan_category_def example_failing_env_def)
  have "map (status \<circ> snd)
     (run_comprehensive_scan example_failing_env ''nowhere'' ''full'' None) =
     replicate 8 (Some ''failed'')"
    unfolding run sc
    by (simp add: failed_entry_def scan_categories_def numeral_eq_Suc)
  with keys show ?thesis by simp
qed

subsection \<open>A probe does not raise\<close>

lemma handle_network_error_result:
  "status (handle_network_error sc operation (Some detail)) = Some ''failed'' \<and>
   result_note (handle_network_error sc operation (Some detail)) =
     Some (''Data not obtained; '' @ operation @ '' failed'' @
           (if detail = [] then [] else '': '' @ detail))"
  by (simp add: handle_network_error_def create_result_def empty_result_def Let_def)

lemma handle_timeout_result:
  "status (handle_timeout sc operation) = Some ''failed'' \<and>
   result_note (handle_timeout sc operation) =
     Some (''Data not obtained; '' @ operation @ '' timed out after '' @
           str_int (timeout sc) @ '' seconds'')"
  by (simp add: handle_timeout_def create_result_def empty_result_def Let_def)

lemma exposure_scan_cases:
  "exposure_scan env sc =
     (case exposure_scan_body env (start_scan sc) of
        Inr result \<Rightarrow> Inr result
      | Inl e \<Rightarrow>
          Inr (case e of
                 NetworkTimeoutError m \<Rightarrow> handle_timeout (start_scan sc) ''port scanning''
               | _ \<Rightarrow> handle_network_error (start_scan sc) ''port scanning''
                        (Some (exn_str e))))"
  by (simp add: exposure_scan_def Let_def split: sum.splits py_exception.splits)

lemma tls_scan_cases:
  "tls_scan env sc =
     (case tls_scan_body env (start_scan sc) of
        Inr result \<Rightarrow> Inr result
      | Inl e \<Rightarrow>
          Inr (case e of
                 NetworkTimeoutError m \<Rightarrow> handle_timeout (start_scan sc) ''TLS/SSL analysis''
               | _ \<Rightarrow> handle_network_error (start_scan sc) ''TLS/SSL analysis''
                        (Some (exn_str e))))"
  by (simp add: tls_scan_def Let_def split: sum.splits py_exception.splits)

lemma failure_note:
  "status (case e of
             NetworkTimeoutError m \<Rightarrow> handle_timeout sc operation
           | _ \<Rightarrow> handle_network_error sc operation (Some (exn_str e))) = Some ''failed'' \<and>
   result_note (case e of
             NetworkTimeoutError m \<Rightarrow> handle_timeout sc operation
           | _ \<Rightarrow> handle_network_error sc operation (Some (exn_str e))) =
     Some (case e of
             NetworkTimeoutError m \<Rightarrow>
               ''Data not obtained; '' @ operation @ '' timed out after '' @
               str_int (timeout sc) @ '' seconds''
           | _ \<Rightarrow>
               ''Data not obtained; '' @ operation @ '' failed'' @
               (if exn_str e = [] then [] else '': '' @ exn_str e))"
  using handle_network_error_result[of sc operation "exn_str e"]
    handle_timeout_result[of sc operation]
  by (cases e) simp_all

text \<open>
  Claim C7. For every constructed service discovery or TLS probe and every behaviour of
  the network, \<open>scan()\<close> returns a result and raises nothing. When the body of its \<open>try\<close>
  block raises an exception \<open>e\<close>, the result has the status \<open>failed\<close>; its note is the
  network-error note \<open>Data not obtained; <operation> failed: <detail>\<close> built from the
  text of \<open>e\<close> (without the colon and the detail when that text is empty), except for the
  probe's own \<open>NetworkTimeoutError\<close>, an expected error, which gets the timeout note.
  Exceptions are the subclasses of \<open>Exception\<close>.
\<close>

theorem scan_never_raises:
  "(\<exists>r. exposure_scan env sc = Inr r) \<and>
   (\<exists>r. tls_scan tenv tsc = Inr r) \<and>
   (\<forall>e. exposure_scan_body env (start_scan sc) = Inl e \<longrightarrow>
      (\<exists>r. exposure_scan env sc = Inr r \<and> status r = Some ''failed'' \<and>
           result_note r =
             Some (case e of
                     NetworkTimeoutError m \<Rightarrow>
                       ''Data not obtained; port scanning timed out after '' @
                       str_int (timeout sc) @ '' seconds''
                   | _ \<Rightarrow>
                       ''Data not obtained; port scanning failed'' @
                       (if exn_str e = [] then [] else '': '' @ exn_str e)))) \<and>
   (\<forall>e. tls_scan_body tenv (start_scan tsc) = Inl e \<longrightarrow>
      (\<exists>r. tls_scan tenv tsc = Inr r \<and> status r = Some ''failed'' \<and>
           result_note r =
             Some (case e of
                     NetworkTimeoutError m \<Rightarrow>
                       ''Data not obtained; TLS/SSL analysis timed out after '' @
                       str_int (timeout tsc) @ '' seconds''
                   | _ \<Rightarrow>
                       ''Data not obtained; TLS/SSL analysis failed'' @
                       (if exn_str e = [] then [] else '': '' @ exn_str e))))"
proof (intro conjI allI impI)
  show "\<exists>r. exposure_scan env sc = Inr r"
    by (simp add: exposure_scan_cases split: sum.splits)
  show "\<exists>r. tls_scan tenv tsc = Inr r"
    by (simp add: tls_scan_cases split: sum.splits)
next
  fix e assume "exposure_scan_body env (start_scan sc) = Inl e"
  then show "\<exists>r. exposure_scan env sc = Inr r \<and> status r = Some ''failed'' \<and>
           result_note r =
             Some (case e of
                     NetworkTimeoutError m \<Rightarrow>
                       ''Data not obtained; port scanning timed out after '' @
                       str_int (timeout sc) @ '' seconds''
                   | _ \<Rightarrow>
                       ''Data not obtained; port scanning failed'' @
                       (if exn_str e = [] then [] else '': '' @ exn_str e))"
    using failure_note[where e = e and sc = "start_scan sc" and operation = "''port scanning''"]
    by (cases e) (simp_all add: exposure_scan_cases start_scan_def)
next
  fix e assume "tls_scan_body tenv (start_scan tsc) = Inl e"
  then show "\<exists>r. tls_scan tenv tsc = Inr r \<and> status r = Some ''failed'' \<and>
           result_note r =
             Some (case e of
                     NetworkTimeoutError m \<Rightarrow>
                       ''Data not obtained; TLS/SSL analysis timed out after '' @
                       str_int (timeout tsc) @ '' seconds''
                   | _ \<Rightarrow>
                       ''Data not obtained; TLS/SSL analysis failed'' @
                       (if exn_str e = [] then [] else '': '' @ exn_str e))"
    using failure_note[where e = e and sc = "start_scan tsc" and
        operation = "''TLS/SSL analysis''"]
    by (cases e) (simp_all add: tls_scan_cases start_scan_def)
qed

theorem scan_never_raises_witness:
  "(\<exists>r. exposure_scan example_exposure_env example_nmap_scanner = Inr r \<and>
        status r = Some ''failed'' \<and>
        result_note r =
          Some ''Data not obtained; port scanning failed: nmap program was not found in path'') \<and>
   (\<exists>r. tls_scan example_tls_env_raising example_scanner = Inr r \<and>
        status r = Some ''failed'' \<and>
        result_note r =
          Some ''Data not obtained; TLS/SSL analysis failed: cannot run the event loop'')"
proof -
  have b1: "exposure_scan_body example_exposure_env (start_scan example_nmap_scanner) =
              Inl (OtherException ''nmap program was not found in path'')"
    by (simp add: exposure_scan_body_def example_exposure_env_def example_nmap_scanner_def
        start_scan_def Let_def)
  have b2: "tls_scan_body example_tls_env_raising (start_scan example_scanner) =
              Inl (OtherException ''cannot run the event loop'')"
    by (simp add: tls_scan_body_def example_tls_env_raising_def example_tls_env_def
        example_scanner_def start_scan_def find_tls_services_def should_scan_quickly_def
        tls_ports_def Let_def)
  from scan_never_raises[of example_exposure_env example_nmap_scanner
      example_tls_env_raising example_scanner] b1 b2
  show ?thesis by simp
qed

subsection \<open>The socket scan\<close>

lemma scan_port_trace: "snd (scan_port env p tr) = tr @ [p]"
  by (simp add: scan_port_def split: connect_outcome.splits)

lemma scan_port_Some:
  assumes "fst (scan_port env p tr) = Some pinfo"
  shows "connect_ex env tr p = ConnectReturned 0 \<and> port pinfo = Some p \<and>
         state pinfo = Some ''open''"
  using assms by (auto simp: scan_port_def split: connect_outcome.splits if_splits)

lemma scan_port_None:
  assumes "connect_ex env tr p \<noteq> ConnectReturned 0"
  shows "fst (scan_port env p tr) = None"
  using assms by (auto simp: scan_port_def split: connect_outcome.splits)

lemma executor_map_trace: "snd (executor_map env ps tr) = tr @ ps"
  by (induction ps arbitrary: tr) (simp_all add: Let_def scan_port_trace)

lemma executor_map_length: "length (fst (executor_map env ps tr)) = length ps"
  by (induction ps arbitrary: tr) (simp_all add: Let_def)

lemma executor_map_nth:
  assumes "i < length ps"
  shows "fst (executor_map env ps tr) ! i = fst (scan_port env (ps ! i) (tr @ take i ps))"
  using assms
proof (induction ps arbitrary: tr i)
  case Nil
  then show ?case by simp
next
  case (Cons p ps)
  show ?case
  proof (cases i)
    case 0
    then show ?thesis by (simp add: Let_def)
  next
    case (Suc j)
    with Cons.prems have "j < length ps" by simp
    from Cons.IH[OF this, of "snd (scan_port env p tr)"] Suc show ?thesis
      by (simp add: Let_def scan_port_trace)
  qed
qed

lemma get_scan_ports_distinct: "distinct (get_scan_ports sc)"
  by (simp add: get_scan_ports_def COMMON_PORTS_def)

text \<open>
  Claim C9, as amended. In the socket fallback, for every port list: an empty list
  raises before any connection is attempted; for a list that is not empty the scan
  returns, and then every record in \<open>open_ports\<close> is the record of a port of the list on
  which an attempt of this invocation returned 0 from \<open>connect_ex\<close>, an attempt that
  returns another code or raises (a timeout, a refusal, any error) yields no record,
  and the attempts made are those of the list, one for each occurrence of a port (the
  model makes them in the order of the list). So no port is attempted more than once
  when the list has no duplicates, as is the case for the lists the probe scans
  (\<open>COMMON_PORTS\<close> and \<open>range(1, 1001)\<close>). On a list with a duplicate the claim as
  stated fails: in \<open>[80, 80]\<close> port 80 is attempted twice.
\<close>

theorem socket_scan_sound:
  "(ports = [] \<longrightarrow> (\<exists>e. perform_socket_scan env ports = Inl e)) \<and>
   (ports \<noteq> [] \<longrightarrow> (\<exists>found tr. perform_socket_scan env ports = Inr (found, tr))) \<and>
   (\<forall>found tr. perform_socket_scan env ports = Inr (found, tr) \<longrightarrow>
      tr = ports \<and>
      (\<forall>pinfo\<in>set found. \<exists>i<length ports.
          port pinfo = Some (ports ! i) \<and> state pinfo = Some ''open'' \<and>
          connect_ex env (take i ports) (ports ! i) = ConnectReturned 0) \<and>
      (\<forall>i<length ports.
          connect_ex env (take i ports) (ports ! i) \<noteq> ConnectReturned 0 \<longrightarrow>
          fst (executor_map env ports []) ! i = None) \<and>
      (\<forall>p. count_list tr p = count_list ports p) \<and>
      (distinct ports \<longrightarrow> distinct tr)) \<and>
   distinct (get_scan_ports sc)"
proof (intro conjI allI impI ballI)
  show "\<exists>e. perform_socket_scan env ports = Inl e" if "ports = []"
    using that by (simp add: perform_socket_scan_def)
  show "\<exists>found tr. perform_socket_scan env ports = Inr (found, tr)" if "ports \<noteq> []"
    using that by (simp add: perform_socket_scan_def Let_def)
  show "distinct (get_scan_ports sc)" by (rule get_scan_ports_distinct)
next
  fix found tr
  assume run: "perform_socket_scan env ports = Inr (found, tr)"
  then have found: "found = List.map_filter (\<lambda>result. result) (fst (executor_map env ports []))"
    and tr: "tr = snd (executor_map env ports [])"
    by (auto simp: perform_socket_scan_def Let_def split: if_splits)
  from tr show trace: "tr = ports" by (simp add: executor_map_trace)
  then show "count_list tr p = count_list ports p" for p by simp
  from trace show "distinct tr" if "distinct ports" using that by simp
  show "\<exists>i<length ports.
          port pinfo = Some (ports ! i) \<and> state pinfo = Some ''open'' \<and>
          connect_ex env (take i ports) (ports ! i) = ConnectReturned 0"
    if "pinfo \<in> set found" for pinfo
  proof -
    from that found have "Some pinfo \<in> set (fst (executor_map env ports []))"
      by (auto simp: List.map_filter_def)
    then obtain i where i: "i < length ports"
      "fst (executor_map env ports []) ! i = Some pinfo"
      by (auto simp: in_set_conv_nth executor_map_length)
    from executor_map_nth[OF i(1), of env "[]"] i(2)
    have "fst (scan_port env (ports ! i) (take i ports)) = Some pinfo" by simp
    from scan_port_Some[OF this] i(1) show ?thesis by blast
  qed
  show "fst (executor_map env ports []) ! i = None"
    if "i < length ports" "connect_ex env (take i ports) (ports ! i) \<noteq> ConnectReturned 0"
    for i
    using executor_map_nth[OF that(1), of env "[]"] scan_port_None[OF that(2)] by simp
qed

theorem socket_scan_sound_witness:
  "perform_socket_scan example_exposure_env [22, 80] =
     Inr ([\<lparr>port = Some 22, protocol = Some ''tcp'', service = Some ''ssh'',
             state = Some ''open'', port_method = Some ''socket_connect'',
             banner = None\<rparr>], [22, 80]) \<and>
   distinct [22, 80 :: int]"
proof -
  from socket_scan_sound[of "[22, 80]" example_exposure_env example_scanner]
  obtain found tr where
    run: "perform_socket_scan example_exposure_env [22, 80] = Inr (found, tr)"
    by auto
  with socket_scan_sound[of "[22, 80]" example_exposure_env example_scanner]
  have "tr = [22, 80]" by blast
  moreover have "fst (executor_map example_exposure_env [22, 80] []) =
      [Some \<lparr>port = Some 22, protocol = Some ''tcp'', service = Some ''ssh'',
             state = Some ''open'', port_method = Some ''socket_connect'',
             banner = None\<rparr>, None]"
    by (simp add: scan_port_def example_exposure_env_def guess_service_name_def
        common_services_def getd_def Let_def)
  ultimately show ?thesis
    using run by (auto simp: perform_socket_scan_def Let_def List.map_filter_def)
qed

theorem socket_scan_sound_counterexample:
  "map_sum id snd (perform_socket_scan example_exposure_env [80, 80]) = Inr [80, 80] \<and>
   count_list [80, 80] (80 :: int) = 2"
  by (simp add: perform_socket_scan_def scan_port_def example_exposure_env_def Let_def)

end
